theory Spec2Isabelle
  imports Complex_Main
begin

section \<open>JavaScript values used by the dashboard\<close>

text \<open>
  A JavaScript \<^verbatim>\<open>number\<close> is NaN, an infinity or a finite value. Finite values are
  modelled by exact rationals (every finite double is one) and the negative zero is
  identified with zero (both are falsy, both print as \<^verbatim>\<open>0\<close>, both compare equal).
  Arithmetic rounds: the difference, the quotient and the product of two finite values are
  the exact results rounded to the nearest double, ties to even (\<open>round_double\<close>). A
  string is the list of its characters; the model covers the code units below 256, one
  \<^typ>\<open>char\<close> each.
\<close>

datatype number = NaN | PosInf | NegInf | Num rat

fun js_lt :: "number \<Rightarrow> number \<Rightarrow> bool" where
  "js_lt NaN _ = False"
| "js_lt _ NaN = False"
| "js_lt (Num a) (Num b) = (a < b)"
| "js_lt NegInf NegInf = False"
| "js_lt NegInf _ = True"
| "js_lt _ NegInf = False"
| "js_lt PosInf _ = False"
| "js_lt _ PosInf = True"

fun js_le :: "number \<Rightarrow> number \<Rightarrow> bool" where
  "js_le NaN _ = False"
| "js_le _ NaN = False"
| "js_le (Num a) (Num b) = (a \<le> b)"
| "js_le NegInf _ = True"
| "js_le _ PosInf = True"
| "js_le PosInf _ = False"
| "js_le _ NegInf = False"

text \<open>
  Rounding of an exact result to a double (IEEE 754 binary64, round to nearest, ties to
  even). \<open>binary_exponent x\<close> is the \<open>e\<close> with \<open>2^e \<le> x < 2^(e+1)\<close> for a positive
  \<open>x\<close>; the doubles of that binade are the multiples of \<open>2^(e-52)\<close>, those below
  \<open>2^(-1022)\<close> the multiples of \<open>2^(-1074)\<close>, and a result that rounds to \<open>2^1024\<close> or
  more is an infinity.
\<close>

definition round_half_even :: "rat \<Rightarrow> int" where
  "round_half_even x =
     (if x - of_int \<lfloor>x\<rfloor> < 1 / 2 then \<lfloor>x\<rfloor>
      else if 1 / 2 < x - of_int \<lfloor>x\<rfloor> then \<lfloor>x\<rfloor> + 1
      else if even \<lfloor>x\<rfloor> then \<lfloor>x\<rfloor> else \<lfloor>x\<rfloor> + 1)"

function exponent_up :: "rat \<Rightarrow> int" where
  "exponent_up x = (if 2 \<le> x then exponent_up (x / 2) + 1 else 0)"
  by pat_completeness auto
termination
proof (relation "measure (\<lambda>x. nat \<lfloor>x\<rfloor>)")
  fix x :: rat
  assume "2 \<le> x"
  then have "x / 2 \<le> x - 1" by simp
  then have "\<lfloor>x / 2\<rfloor> \<le> \<lfloor>x - 1\<rfloor>" by (rule floor_mono)
  moreover have "2 \<le> \<lfloor>x\<rfloor>" using \<open>2 \<le> x\<close> by (simp add: le_floor_iff)
  ultimately show "(x / 2, x) \<in> measure (\<lambda>x. nat \<lfloor>x\<rfloor>)" by simp
qed simp

function exponent_down :: "rat \<Rightarrow> int" where
  "exponent_down x = (if 0 < x \<and> x < 1 then exponent_down (x * 2) - 1 else 0)"
  by pat_completeness auto
termination
proof (relation "measure (\<lambda>x. nat \<lfloor>1 / x\<rfloor>)")
  fix x :: rat
  assume a: "0 < x \<and> x < 1"
  define y where "y = 1 / x"
  have y: "1 < y" using a by (simp add: y_def)
  have h: "1 / (x * 2) = y / 2" by (simp add: y_def)
  have "\<lfloor>y / 2\<rfloor> < \<lfloor>y\<rfloor>"
  proof (cases "2 \<le> y")
    case True
    then have "y / 2 \<le> y - 1" by simp
    then have "\<lfloor>y / 2\<rfloor> \<le> \<lfloor>y - 1\<rfloor>" by (rule floor_mono)
    then show ?thesis by simp
  next
    case False
    then have "y / 2 < 1" by simp
    then have "\<lfloor>y / 2\<rfloor> < 1" by (simp only: floor_less_iff of_int_1)
    moreover have "1 \<le> \<lfloor>y\<rfloor>" using y by (simp only: le_floor_iff of_int_1)
    ultimately show ?thesis by linarith
  qed
  moreover have "0 < \<lfloor>y\<rfloor>" using y by (simp add: less_floor_iff)
  ultimately have "nat \<lfloor>y / 2\<rfloor> < nat \<lfloor>y\<rfloor>" by linarith
  then show "(x * 2, x) \<in> measure (\<lambda>x. nat \<lfloor>1 / x\<rfloor>)"
    unfolding h in_measure y_def [symmetric] .
qed simp

declare exponent_up.simps [simp del] exponent_down.simps [simp del]

definition binary_exponent :: "rat \<Rightarrow> int" where
  "binary_exponent x = (if 1 \<le> x then exponent_up x else exponent_down x)"

definition round_double :: "rat \<Rightarrow> number" where
  "round_double q =
     (if q = 0 then Num 0
      else
        let e = max (binary_exponent \<bar>q\<bar>) (- 1022);
            ulp = (if 52 \<le> e then 2 ^ nat (e - 52) else 1 / 2 ^ nat (52 - e));
            m = round_half_even (\<bar>q\<bar> / ulp)
        in if 1023 < e \<or> (e = 1023 \<and> m = 9007199254740992)
           then (if q < 0 then NegInf else PosInf)
           else Num (if q < 0 then - (of_int m * ulp) else of_int m * ulp))"



fun js_mul_by :: "rat \<Rightarrow> number \<Rightarrow> number" where
  "js_mul_by c (Num a) = round_double (a * c)"
| "js_mul_by c x = x"


text \<open>Number.isNaN and the truthiness of a number (zero and NaN are falsy).\<close>

fun Number_isNaN :: "number \<Rightarrow> bool" where
  "Number_isNaN NaN = True"
| "Number_isNaN _ = False"

fun truthy_number :: "number \<Rightarrow> bool" where
  "truthy_number NaN = False"
| "truthy_number (Num a) = (a \<noteq> 0)"
| "truthy_number _ = True"

text \<open>
  Decimal digits of a natural number, and \<^verbatim>\<open>String(n)\<close>: NaN, the infinities and the
  integers up to \<open>2^53\<close> in magnitude print as ECMAScript fixes them; how any other
  finite value prints (shortest round-trip digits, exponents) is the parameter \<open>fmt\<close>.
\<close>

function dec :: "nat \<Rightarrow> string" where
  "dec n = (if n < 10 then [''0123456789'' ! n] else dec (n div 10) @ [''0123456789'' ! (n mod 10)])"
  by pat_completeness auto
termination
  by (relation "measure id") auto

declare dec.simps [simp del]

definition number_to_string :: "(rat \<Rightarrow> string) \<Rightarrow> number \<Rightarrow> string" where
  "number_to_string fmt n =
     (case n of
        NaN \<Rightarrow> ''NaN''
      | PosInf \<Rightarrow> ''Infinity''
      | NegInf \<Rightarrow> ''-Infinity''
      | Num q \<Rightarrow>
          if q = of_int \<lfloor>q\<rfloor> \<and> \<bar>q\<bar> \<le> 9007199254740992
          then (if q < 0 then ''-'' @ dec (nat (- \<lfloor>q\<rfloor>)) else dec (nat \<lfloor>q\<rfloor>))
          else fmt q)"

text \<open>The number that a string of decimal digits denotes.\<close>

definition decimal_value :: "string \<Rightarrow> nat" where
  "decimal_value s = foldl (\<lambda>a c. 10 * a + (of_char c - 48)) 0 s"

section \<open>Dashboard overview: formatTimeAgo\<close>



section \<open>Strings\<close>

text \<open>
  \<^verbatim>\<open>String.prototype.trim\<close>: the white space and line terminators of ECMAScript among the
  code units below 256 (tab, line feed, vertical tab, form feed, carriage return, space,
  no-break space). A string \<open>s\<close> is blank for the source's test \<^verbatim>\<open>!s.trim()\<close> when
  \<open>trim s\<close> is empty.
\<close>

definition is_whitespace :: "char \<Rightarrow> bool" where
  "is_whitespace c = (c \<in> set [CHR 0x09, CHR 0x0A, CHR 0x0B, CHR 0x0C, CHR 0x0D, CHR 0x20, CHR 0xA0])"

definition trim :: "string \<Rightarrow> string" where
  "trim s = rev (dropWhile is_whitespace (rev (dropWhile is_whitespace s)))"

section \<open>Outcomes of awaited API calls\<close>

text \<open>
  A page awaits a call of \<^verbatim>\<open>agentApi\<close>: the promise resolves with the declared response
  type, rejects with an \<^verbatim>\<open>ApiError\<close> (whose message the pages show) or rejects with
  anything else.
\<close>

datatype 'a outcome = Resolved 'a | RejectedApiError string | RejectedOther

section \<open>Rules page\<close>

datatype severity = info | warning | critical

fun severity_str :: "severity \<Rightarrow> string" where
  "severity_str info = ''info''"
| "severity_str warning = ''warning''"
| "severity_str critical = ''critical''"

record RuleFormState =
  ruleName :: string
  ruleMetric :: string
  ruleOperator :: string
  ruleThreshold :: string
  ruleSeverity :: severity
  ruleWindow :: number

record RuleTemplate =
  template_id :: string
  title :: string
  description :: string
  template_form :: RuleFormState

text \<open>The values of \<^verbatim>\<open>METRIC_OPTIONS\<close> and of the options of the operator select.\<close>

definition METRIC_OPTIONS :: "string list" where
  "METRIC_OPTIONS = [''cpu'', ''memory'', ''disk'', ''process'', ''network'', ''usb'']"

definition OPERATOR_OPTIONS :: "string list" where
  "OPERATOR_OPTIONS = [''>='', ''>'', ''<='', ''<'', ''=='', ''!='']"

definition SEVERITY_OPTIONS :: "severity list" where
  "SEVERITY_OPTIONS = [info, warning, critical]"

definition RULE_TEMPLATES :: "RuleTemplate list" where
  "RULE_TEMPLATES =
    [\<lparr>template_id = ''cpu-spike-90-30s'', title = ''CPU spike'',
      description = ''CPU usage >= 90% for 30s or longer'',
      template_form = \<lparr>ruleName = ''CPU > 90% (30s)'', ruleMetric = ''cpu'', ruleOperator = ''>='',
        ruleThreshold = ''90'', ruleSeverity = warning, ruleWindow = Num 30\<rparr>\<rparr>,
     \<lparr>template_id = ''memory-high-90-300s'', title = ''Memory high'',
      description = ''Memory usage >= 90% for 5min or longer'',
      template_form = \<lparr>ruleName = ''Memory > 90% (5m)'', ruleMetric = ''memory'', ruleOperator = ''>='',
        ruleThreshold = ''90'', ruleSeverity = warning, ruleWindow = Num 300\<rparr>\<rparr>,
     \<lparr>template_id = ''disk-critical-95-60s'', title = ''Disk threshold'',
      description = ''Disk usage >= 95% for 60s or longer'',
      template_form = \<lparr>ruleName = ''Disk > 95% (60s)'', ruleMetric = ''disk'', ruleOperator = ''>='',
        ruleThreshold = ''95'', ruleSeverity = critical, ruleWindow = Num 60\<rparr>\<rparr>,
     \<lparr>template_id = ''network-disconnected'', title = ''Network disconnected'',
      description = ''Trigger when network status is disconnected'',
      template_form = \<lparr>ruleName = ''Network disconnected'', ruleMetric = ''network'', ruleOperator = ''=='',
        ruleThreshold = ''disconnected'', ruleSeverity = critical, ruleWindow = Num 1\<rparr>\<rparr>,
     \<lparr>template_id = ''usb-removed'', title = ''USB device removed'',
      description = ''Trigger when critical USB device is removed'',
      template_form = \<lparr>ruleName = ''USB removed'', ruleMetric = ''usb'', ruleOperator = ''=='',
        ruleThreshold = ''removed'', ruleSeverity = critical, ruleWindow = Num 1\<rparr>\<rparr>]"

definition INITIAL_FORM :: RuleFormState where
  "INITIAL_FORM = \<lparr>ruleName = '''', ruleMetric = ''cpu'', ruleOperator = ''>='',
     ruleThreshold = ''90'', ruleSeverity = warning, ruleWindow = Num 60\<rparr>"

text \<open>
  The state of a page that the handlers read and write. Both pages hold the selected group,
  the saving flag, the error and the notice; the rules page adds the form and the rules
  fetched for the group (their type \<open>'r\<close> is the declared \<^verbatim>\<open>AgentGroupRule\<close>).
\<close>

record page_state =
  selectedGroupId :: string
  saving :: bool
  error :: string
  notice :: string

record 'r rules_page = page_state +
  form :: RuleFormState
  rules :: "'r list"

text \<open>The object that handleCreateRule passes to \<^verbatim>\<open>agentApi.createGroupRule\<close>.\<close>

record rule_data =
  name :: string
  metric :: string
  operator :: string
  threshold :: string
  rule_severity :: severity
  window_seconds :: number

text \<open>The calls of \<^verbatim>\<open>agentApi\<close> that the rules page makes, with their arguments.\<close>

datatype rules_call =
    CreateGroupRule string rule_data
  | ListGroupRules string

text \<open>
  \<^verbatim>\<open>previewText\<close>: the template literal, and the \<^verbatim>\<open>useMemo\<close> around it. The cache holds
  the dependency array of the last computation and its value; a render recomputes when a
  dependency has changed.
\<close>

definition previewText :: "(rat \<Rightarrow> string) \<Rightarrow> RuleFormState \<Rightarrow> string" where
  "previewText fmt f =
     ''Alert '' @ severity_str (ruleSeverity f) @ '' when '' @ ruleMetric f @ '' '' @ ruleOperator f
       @ '' '' @ ruleThreshold f @ '' for '' @ number_to_string fmt (ruleWindow f) @ ''s or longer''"

type_synonym preview_deps = "string \<times> string \<times> string \<times> severity \<times> number"

definition previewDeps :: "RuleFormState \<Rightarrow> preview_deps" where
  "previewDeps f = (ruleMetric f, ruleOperator f, ruleThreshold f, ruleSeverity f, ruleWindow f)"

definition useMemo_previewText ::
  "(rat \<Rightarrow> string) \<Rightarrow> (preview_deps \<times> string) option \<Rightarrow> RuleFormState
     \<Rightarrow> string \<times> (preview_deps \<times> string) option" where
  "useMemo_previewText fmt cache f =
     (case cache of
        None \<Rightarrow> (previewText fmt f, Some (previewDeps f, previewText fmt f))
      | Some (deps, v) \<Rightarrow>
          if deps = previewDeps f then (v, cache)
          else (previewText fmt f, Some (previewDeps f, previewText fmt f)))"

text \<open>The previews shown by successive renders, the first with an empty cache.\<close>

fun render_previews ::
  "(rat \<Rightarrow> string) \<Rightarrow> (preview_deps \<times> string) option \<Rightarrow> RuleFormState list \<Rightarrow> string list" where
  "render_previews fmt cache [] = []"
| "render_previews fmt cache (f # fs) =
     (case useMemo_previewText fmt cache f of (v, cache') \<Rightarrow> v # render_previews fmt cache' fs)"

text \<open>
  \<^verbatim>\<open>applyTemplate\<close> and \<^verbatim>\<open>handleCreateRule\<close>. The outcomes of the two awaited calls
  (createGroupRule, then listGroupRules inside fetchRules) are parameters; the result is the
  page state after the handler and the calls it made, in order.
\<close>

definition applyTemplate :: "RuleTemplate \<Rightarrow> 'r rules_page \<Rightarrow> 'r rules_page" where
  "applyTemplate t st =
     st\<lparr>form := template_form t, notice := ''Template applied: '' @ title t, error := ''''\<rparr>"

definition handleCreateRule ::
  "(string \<times> bool) outcome \<Rightarrow> 'r list outcome \<Rightarrow> 'r rules_page \<Rightarrow> 'r rules_page \<times> rules_call list" where
  "handleCreateRule created fetched st =
     (if selectedGroupId st = '''' then (st\<lparr>error := ''Please select a group first.''\<rparr>, [])
      else if trim (ruleName (form st)) = '''' then (st\<lparr>error := ''Please enter a rule name.''\<rparr>, [])
      else if trim (ruleThreshold (form st)) = '''' then (st\<lparr>error := ''Please enter a threshold.''\<rparr>, [])
      else if js_lt (ruleWindow (form st)) (Num 1) \<or> Number_isNaN (ruleWindow (form st))
        then (st\<lparr>error := ''Window must be at least 1 second.''\<rparr>, [])
      else
        let call = CreateGroupRule (selectedGroupId st)
              \<lparr>name = trim (ruleName (form st)), metric = ruleMetric (form st),
               operator = ruleOperator (form st), threshold = trim (ruleThreshold (form st)),
               rule_severity = ruleSeverity (form st), window_seconds = ruleWindow (form st)\<rparr>;
            st1 = st\<lparr>saving := True, error := ''''\<rparr>
        in (case created of
             RejectedApiError m \<Rightarrow> (st1\<lparr>error := m, saving := False\<rparr>, [call])
           | RejectedOther \<Rightarrow> (st1\<lparr>error := ''Failed to create rule.'', saving := False\<rparr>, [call])
           | Resolved _ \<Rightarrow>
               (let st2 = st1\<lparr>form := (form st1)\<lparr>ruleName := ''''\<rparr>, notice := ''Rule added.''\<rparr>;
                    calls = [call, ListGroupRules (selectedGroupId st)]
                in (case fetched of
                      Resolved rs \<Rightarrow> (st2\<lparr>rules := rs, saving := False\<rparr>, calls)
                    | RejectedApiError m \<Rightarrow> (st2\<lparr>error := m, saving := False\<rparr>, calls)
                    | RejectedOther \<Rightarrow>
                        (st2\<lparr>error := ''Failed to create rule.'', saving := False\<rparr>, calls)))))"

text \<open>
  What the user can do to the form: press a template button, type into a text input, pick
  an option of a select (by its position), enter a window (the input's value through
  \<^verbatim>\<open>Number\<close>), and submit successfully, which clears the name. A position that names no
  button or option changes nothing.
\<close>

datatype form_action =
    PressTemplate nat
  | TypeRuleName string
  | PickMetric nat
  | PickOperator nat
  | TypeThreshold string
  | PickSeverity nat
  | EnterWindow number
  | RuleAdded

fun form_step :: "RuleFormState \<Rightarrow> form_action \<Rightarrow> RuleFormState" where
  "form_step f (PressTemplate i) =
     (if i < length RULE_TEMPLATES then template_form (RULE_TEMPLATES ! i) else f)"
| "form_step f (TypeRuleName s) = f\<lparr>ruleName := s\<rparr>"
| "form_step f (PickMetric i) =
     (if i < length METRIC_OPTIONS then f\<lparr>ruleMetric := METRIC_OPTIONS ! i\<rparr> else f)"
| "form_step f (PickOperator i) =
     (if i < length OPERATOR_OPTIONS then f\<lparr>ruleOperator := OPERATOR_OPTIONS ! i\<rparr> else f)"
| "form_step f (TypeThreshold s) = f\<lparr>ruleThreshold := s\<rparr>"
| "form_step f (PickSeverity i) =
     (if i < length SEVERITY_OPTIONS then f\<lparr>ruleSeverity := SEVERITY_OPTIONS ! i\<rparr> else f)"
| "form_step f (EnterWindow n) = f\<lparr>ruleWindow := n\<rparr>"
| "form_step f RuleAdded = f\<lparr>ruleName := ''''\<rparr>"

definition form_after :: "form_action list \<Rightarrow> RuleFormState" where
  "form_after acts = foldl form_step INITIAL_FORM acts"

text \<open>
  The words of the specification for a rule that the evaluation cannot order: the operator
  is an ordering operator, and the threshold does not parse as a number. A threshold parses
  as a number when it is a decimal literal: an optional sign, digits with an optional
  fraction (at least one digit in all), and an optional exponent. The source has no such
  test; these definitions only state the claim that it would have one.
\<close>

definition spec_ordering_operator :: "string \<Rightarrow> bool" where
  "spec_ordering_operator op = (op \<in> set [''>'', ''>='', ''<'', ''<=''])"

definition is_digit :: "char \<Rightarrow> bool" where
  "is_digit c = (c \<in> set ''0123456789'')"

definition strip_sign :: "string \<Rightarrow> string" where
  "strip_sign s = (case s of [] \<Rightarrow> [] | c # cs \<Rightarrow> if c = CHR ''+'' \<or> c = CHR ''-'' then cs else s)"

definition is_exponent :: "string \<Rightarrow> bool" where
  "is_exponent s =
     (case s of
        [] \<Rightarrow> True
      | c # cs \<Rightarrow> (c = CHR ''e'' \<or> c = CHR ''E'') \<and> strip_sign cs \<noteq> [] \<and> list_all is_digit (strip_sign cs))"

definition spec_parses_as_number :: "string \<Rightarrow> bool" where
  "spec_parses_as_number s =
     (let body = strip_sign (trim s);
          int_part = takeWhile is_digit body;
          rest = dropWhile is_digit body;
          has_point = (rest \<noteq> [] \<and> hd rest = CHR ''.'');
          frac_part = (if has_point then takeWhile is_digit (tl rest) else []);
          tail = (if has_point then dropWhile is_digit (tl rest) else rest)
      in (int_part \<noteq> [] \<or> frac_part \<noteq> []) \<and> is_exponent tail)"

section \<open>Values parsed from JSON\<close>

text \<open>
  A JavaScript value as \<^verbatim>\<open>JSON.parse\<close> and \<^verbatim>\<open>res.json()\<close> produce it, with
  \<^verbatim>\<open>undefined\<close> for a property that is absent. An object is the list of its own
  properties in the order of \<^verbatim>\<open>Object.entries\<close>.
\<close>

datatype jsval =
    JUndefined
  | JNull
  | JBool bool
  | JNumber number
  | JString string
  | JArray "jsval list"
  | JObject "(string \<times> jsval) list"

fun truthy :: "jsval \<Rightarrow> bool" where
  "truthy JUndefined = False"
| "truthy JNull = False"
| "truthy (JBool b) = b"
| "truthy (JNumber n) = truthy_number n"
| "truthy (JString s) = (s \<noteq> '''')"
| "truthy (JArray _) = True"
| "truthy (JObject _) = True"

text \<open>
  \<^verbatim>\<open>obj[k] = v\<close> on an object created by a literal, for a string \<open>v\<close>: the property is
  written in place or added last, except that \<^verbatim>\<open>__proto__\<close> is the accessor of
  \<^verbatim>\<open>Object.prototype\<close>, whose setter ignores a string.
\<close>

fun set_prop :: "string \<Rightarrow> 'v \<Rightarrow> (string \<times> 'v) list \<Rightarrow> (string \<times> 'v) list" where
  "set_prop k v [] = [(k, v)]"
| "set_prop k v ((k', v') # ps) = (if k' = k then (k, v) # ps else (k', v') # set_prop k v ps)"

definition assign_prop :: "string \<Rightarrow> string \<Rightarrow> (string \<times> string) list \<Rightarrow> (string \<times> string) list" where
  "assign_prop k v obj = (if k = ''__proto__'' then obj else set_prop k v obj)"

section \<open>Alerts page\<close>

text \<open>
  \<^verbatim>\<open>parseHeadersJson\<close>. \<^verbatim>\<open>JSON.parse\<close> is a parameter: it returns the parsed value or
  throws a SyntaxError, whose message is the \<open>Inl\<close>. The result is the headers object or
  the message of the Error thrown.
\<close>

type_synonym json_parser = "string \<Rightarrow> string + jsval"

fun collect_headers :: "(string \<times> jsval) list \<Rightarrow> (string \<times> string) list \<Rightarrow> string + (string \<times> string) list" where
  "collect_headers [] result = Inr result"
| "collect_headers ((k, v) # entries) result =
     (case v of
        JString s \<Rightarrow> collect_headers entries (assign_prop k s result)
      | _ \<Rightarrow> Inl (''Header \"'' @ k @ ''\" value must be a string.''))"

definition parseHeadersJson :: "json_parser \<Rightarrow> string \<Rightarrow> string + (string \<times> string) list" where
  "parseHeadersJson JSON_parse v =
     (if trim v = '''' then Inr []
      else case JSON_parse v of
        Inl msg \<Rightarrow> Inl msg
      | Inr parsed \<Rightarrow>
          (case parsed of
             JObject entries \<Rightarrow> collect_headers entries []
           | _ \<Rightarrow> Inl ''Headers must be a JSON object.''))"

datatype channel_type = email | webhook

datatype WebhookMethod = GET | POST | PUT | PATCH | DELETE

text \<open>
  The records that the page reads: a group, a channel and an alert occurrence, with the
  fields of the declared types that the page uses (an optional or nullable field is an
  option, \<open>enabled\<close> is the number 0 or 1 of the API).
\<close>

record AgentGroup =
  group_id :: string
  group_name :: string

record AgentGroupAlertChannel =
  channel_id :: string
  channel_kind :: channel_type
  channel_target :: string
  channel_webhook_method :: "WebhookMethod option"
  channel_webhook_headers :: "string option"
  channel_webhook_body :: "string option"
  channel_enabled :: number

record AgentAlertOccurrence =
  alert_id :: string
  alert_group_id :: string
  alert_agent_id :: string
  alert_rule_id :: string
  alert_severity :: severity
  alert_metric :: string
  alert_message :: string
  alert_anomaly_type :: string
  alert_created_at :: number
  alert_agent_display_name :: "string option"
  alert_agent_thing_name :: "string option"
  alert_rule_name :: "string option"

record alerts_page = page_state +
  groups :: "AgentGroup list"
  channels :: "AgentGroupAlertChannel list"
  alertHistory :: "AgentAlertOccurrence list"
  channelType :: channel_type
  target :: string
  webhookMethod :: WebhookMethod
  webhookHeaders :: string
  webhookBody :: string
  editingId :: string
  editTarget :: string
  editMethod :: WebhookMethod
  editHeaders :: string
  editBody :: string

text \<open>The object that handleCreateChannel passes to \<^verbatim>\<open>agentApi.createGroupAlertChannel\<close>.\<close>

record channel_data =
  data_type :: channel_type
  data_target :: string
  webhook_method :: "WebhookMethod option"
  webhook_headers :: "(string \<times> string) list option"
  webhook_body :: "string option"

datatype alerts_call =
    CreateGroupAlertChannel string channel_data
  | ListGroupAlertChannels string
  | ListGroupAlerts string "number option" "number option"

definition DEFAULT_HEADERS :: string where
  "DEFAULT_HEADERS = [CHR ''{'', CHR 0x0A] @ ''  \"Content-Type\": \"application/json\"'' @ [CHR 0x0A, CHR ''}'']"

definition DEFAULT_BODY :: string where
  "DEFAULT_BODY = [CHR ''{'', CHR 0x0A] @ ''  \"event\": \"anomaly\"'' @ [CHR 0x0A, CHR ''}'']"

text \<open>
  \<^verbatim>\<open>handleCreateChannel\<close>, with the outcomes of createGroupAlertChannel and of the
  listGroupAlertChannels of fetchChannels as parameters. Everything that parseHeadersJson
  throws is an Error, so the handler shows its message.
\<close>

definition handleCreateChannel ::
  "json_parser \<Rightarrow> (string \<times> bool) outcome \<Rightarrow> AgentGroupAlertChannel list outcome
     \<Rightarrow> alerts_page \<Rightarrow> alerts_page \<times> alerts_call list" where
  "handleCreateChannel JSON_parse created fetched st =
     (if selectedGroupId st = '''' then (st\<lparr>error := ''Please select a group first.''\<rparr>, [])
      else if trim (target st) = '''' then (st\<lparr>error := ''Please enter email or webhook URL.''\<rparr>, [])
      else
        (case (if channelType st = webhook
               then (case parseHeadersJson JSON_parse (webhookHeaders st) of
                       Inl msg \<Rightarrow> Inl msg | Inr h \<Rightarrow> Inr (Some h))
               else Inr None) of
           Inl msg \<Rightarrow> (st\<lparr>error := msg\<rparr>, [])
         | Inr headersPayload \<Rightarrow>
             (let call = CreateGroupAlertChannel (selectedGroupId st)
                    \<lparr>data_type = channelType st, data_target = trim (target st),
                     webhook_method = (if channelType st = webhook then Some (webhookMethod st) else None),
                     webhook_headers = (if channelType st = webhook then headersPayload else None),
                     webhook_body = (if channelType st = webhook then Some (webhookBody st) else None)\<rparr>;
                  st1 = st\<lparr>saving := True, error := ''''\<rparr>
              in (case created of
                    RejectedApiError m \<Rightarrow> (st1\<lparr>error := m, saving := False\<rparr>, [call])
                  | RejectedOther \<Rightarrow>
                      (st1\<lparr>error := ''Failed to add alert channel.'', saving := False\<rparr>, [call])
                  | Resolved _ \<Rightarrow>
                      (let st2 = st1\<lparr>target := '''', webhookMethod := POST,
                                    webhookHeaders := DEFAULT_HEADERS, webhookBody := DEFAULT_BODY,
                                    notice := ''Alert channel added.''\<rparr>;
                           calls = [call, ListGroupAlertChannels (selectedGroupId st)]
                       in (case fetched of
                             Resolved cs \<Rightarrow> (st2\<lparr>channels := cs, saving := False\<rparr>, calls)
                           | RejectedApiError m \<Rightarrow> (st2\<lparr>error := m, saving := False\<rparr>, calls)
                           | RejectedOther \<Rightarrow>
                               (st2\<lparr>error := ''Failed to add alert channel.'', saving := False\<rparr>,
                                calls)))))))"

text \<open>
  \<^verbatim>\<open>fetchAlertHistory\<close> and the effect that runs it for the selected group and catches
  its rejection. The outcome of listGroupAlerts (the alerts and the total) is a parameter.
\<close>

definition fetchAlertHistory ::
  "(AgentAlertOccurrence list \<times> number) outcome \<Rightarrow> string \<Rightarrow> alerts_page
     \<Rightarrow> alerts_page outcome \<times> alerts_call list" where
  "fetchAlertHistory listed groupId st =
     (if groupId = '''' then (Resolved (st\<lparr>alertHistory := []\<rparr>), [])
      else
        ((case listed of
            Resolved res \<Rightarrow> Resolved (st\<lparr>alertHistory := fst res\<rparr>)
          | RejectedApiError m \<Rightarrow> RejectedApiError m
          | RejectedOther \<Rightarrow> RejectedOther),
         [ListGroupAlerts groupId (Some (Num 50)) None]))"

definition alertHistoryEffect ::
  "(AgentAlertOccurrence list \<times> number) outcome \<Rightarrow> alerts_page \<Rightarrow> alerts_page \<times> alerts_call list" where
  "alertHistoryEffect listed st =
     (case fetchAlertHistory listed (selectedGroupId st) st of
        (Resolved st', calls) \<Rightarrow> (st', calls)
      | (_, calls) \<Rightarrow> (st\<lparr>error := ''Failed to load alert history.''\<rparr>, calls))"

text \<open>
  What the page shows below the group select. \<^verbatim>\<open>a || b\<close> on an optional string takes
  \<open>b\<close> when \<open>a\<close> is absent, null or empty. \<^verbatim>\<open>toLocaleString\<close> is a parameter, applied to
  \<open>created_at * 1000\<close>. The sections are shown when the selected id is the id of a group.
\<close>

definition or_else :: "string option \<Rightarrow> string \<Rightarrow> string" where
  "or_else a b = (case a of None \<Rightarrow> b | Some s \<Rightarrow> if s = '''' then b else s)"

definition alert_texts :: "(number \<Rightarrow> string) \<Rightarrow> AgentAlertOccurrence \<Rightarrow> string list" where
  "alert_texts toLocaleString a =
     [or_else (alert_rule_name a) (alert_metric a),
      or_else (Some (alert_message a)) (alert_anomaly_type a),
      ''Agent: '' @ or_else (alert_agent_display_name a)
                      (or_else (alert_agent_thing_name a) (alert_agent_id a)),
      severity_str (alert_severity a),
      toLocaleString (js_mul_by 1000 (alert_created_at a))]"

definition method_str :: "WebhookMethod \<Rightarrow> string" where
  "method_str m = (case m of GET \<Rightarrow> ''GET'' | POST \<Rightarrow> ''POST'' | PUT \<Rightarrow> ''PUT''
                   | PATCH \<Rightarrow> ''PATCH'' | DELETE \<Rightarrow> ''DELETE'')"

definition channel_texts :: "alerts_page \<Rightarrow> AgentGroupAlertChannel \<Rightarrow> string list" where
  "channel_texts st c =
     [if channel_kind c = email then ''Email'' else ''Webhook'',
      channel_target c]
     @ (if channel_kind c = webhook
        then [case channel_webhook_method c of None \<Rightarrow> ''POST'' | Some m \<Rightarrow> method_str m] else [])
     @ [''Status: '' @ (if truthy_number (channel_enabled c) then ''Enabled'' else ''Disabled''),
        if truthy_number (channel_enabled c) then ''Disable'' else ''Enable'',
        ''Configure'', ''Delete'']
     @ (if editingId st = channel_id c
        then [if channel_kind c = email then ''Email address'' else ''Webhook URL'', editTarget st]
             @ (if channel_kind c = webhook
                then [''HTTP Method'', method_str (editMethod st), ''Headers (JSON object)'',
                      editHeaders st, ''Body (optional)'', editBody st]
                else [])
             @ [''Save'', ''Cancel'']
        else [])"

definition selectedGroup :: "alerts_page \<Rightarrow> AgentGroup option" where
  "selectedGroup st = find (\<lambda>g. group_id g = selectedGroupId st) (groups st)"

definition recent_alerts :: "(number \<Rightarrow> string) \<Rightarrow> alerts_page \<Rightarrow> string list list" where
  "recent_alerts toLocaleString st =
     (if selectedGroup st = None then []
      else if alertHistory st = [] then [[''No alerts for this group yet.'']]
      else map (alert_texts toLocaleString) (alertHistory st))"

definition alert_channels :: "alerts_page \<Rightarrow> string list list" where
  "alert_channels st =
     (if selectedGroup st = None then []
      else if channels st = [] then [[''No alert channels configured.'']]
      else map (channel_texts st) (channels st))"

section \<open>The fetch wrapper of the API client\<close>

text \<open>
  The environment of the client: how numbers that are not small integers print, what
  \<^verbatim>\<open>ToString\<close> gives for an array or an object, whether \<^verbatim>\<open>window\<close> is defined, the
  variable \<^verbatim>\<open>NEXT_PUBLIC_API_URL\<close>, and the network: \<open>respond\<close> answers the newest
  request of a list of all requests sent so far. The model leaves out what the platform
  may throw on its own: a storage that refuses access, and the conversion to a string of an
  object whose own \<^verbatim>\<open>toString\<close> and \<^verbatim>\<open>valueOf\<close> are not functions.
\<close>

record request =
  req_url :: string
  req_method :: "string option"
  req_headers :: "(string \<times> string) list"
  req_body :: "jsval option"

text \<open>
  A request as \<^verbatim>\<open>fetch\<close> receives it: \<open>req_method = None\<close> is a request without a
  \<^verbatim>\<open>method\<close> option (a GET), \<open>req_body = Some v\<close> is the body \<^verbatim>\<open>JSON.stringify(v)\<close>.
  A response has its status and what \<^verbatim>\<open>res.json()\<close> resolves with (\<open>None\<close> when it
  rejects); \<^verbatim>\<open>fetch\<close> itself may reject.
\<close>

record response =
  res_status :: nat
  res_json :: "jsval option"

datatype fetch_result = NetworkFailure | Response response

record env =
  fmt_number :: "rat \<Rightarrow> string"
  object_to_string :: "jsval \<Rightarrow> string"
  has_window :: bool
  NEXT_PUBLIC_API_URL :: "string option"
  respond :: "request list \<Rightarrow> fetch_result"

text \<open>
  The state the client can write: the module variable \<^verbatim>\<open>accessToken\<close>, the local
  storage, \<^verbatim>\<open>window.location.href\<close>, and the requests sent. Calls are modelled one at a
  time, so the shared \<^verbatim>\<open>refreshPromise\<close> is null whenever tryRefresh starts.
\<close>

record world =
  accessToken :: jsval
  localStorage :: "string \<rightharpoonup> string"
  location_href :: string
  sent :: "request list"

datatype thrown =
    ApiError nat string jsval
  | TypeError
  | SyntaxError
  | FetchRejected

datatype 'a result = Returned 'a | Threw thrown

definition res_ok :: "response \<Rightarrow> bool" where
  "res_ok res = (200 \<le> res_status res \<and> res_status res \<le> 299)"

definition ToString :: "env \<Rightarrow> jsval \<Rightarrow> string" where
  "ToString e v =
     (case v of
        JUndefined \<Rightarrow> ''undefined''
      | JNull \<Rightarrow> ''null''
      | JBool b \<Rightarrow> (if b then ''true'' else ''false'')
      | JNumber n \<Rightarrow> number_to_string (fmt_number e) n
      | JString s \<Rightarrow> s
      | _ \<Rightarrow> object_to_string e v)"

text \<open>
  \<^verbatim>\<open>data.k\<close> for the property names the client reads (\<^verbatim>\<open>error\<close>, \<^verbatim>\<open>access_token\<close>,
  \<^verbatim>\<open>refresh_token\<close>), which no prototype defines: \<open>None\<close> is the TypeError of a read on
  null or undefined.
\<close>

fun get_prop :: "jsval \<Rightarrow> string \<Rightarrow> jsval option" where
  "get_prop JUndefined k = None"
| "get_prop JNull k = None"
| "get_prop (JObject ps) k = Some (case map_of ps k of None \<Rightarrow> JUndefined | Some v \<Rightarrow> v)"
| "get_prop _ k = Some JUndefined"

definition API_BASE :: "env \<Rightarrow> string" where
  "API_BASE e =
     (case NEXT_PUBLIC_API_URL e of None \<Rightarrow> ''/api/v1'' | Some u \<Rightarrow> if u = '''' then ''/api/v1'' else u)"

definition getItem :: "world \<Rightarrow> string \<Rightarrow> jsval" where
  "getItem w k = (case localStorage w k of None \<Rightarrow> JNull | Some s \<Rightarrow> JString s)"

definition setItem :: "env \<Rightarrow> string \<Rightarrow> jsval \<Rightarrow> world \<Rightarrow> world" where
  "setItem e k v w = w\<lparr>localStorage := (localStorage w)(k \<mapsto> ToString e v)\<rparr>"

definition getAccessToken :: "env \<Rightarrow> world \<Rightarrow> jsval \<times> world" where
  "getAccessToken e w =
     (if truthy (accessToken w) then (accessToken w, w)
      else if has_window e
        then (getItem w ''access_token'', w\<lparr>accessToken := getItem w ''access_token''\<rparr>)
      else (accessToken w, w))"

definition setAccessToken :: "env \<Rightarrow> jsval \<Rightarrow> world \<Rightarrow> world" where
  "setAccessToken e token w =
     (if has_window e then setItem e ''access_token'' token (w\<lparr>accessToken := token\<rparr>)
      else w\<lparr>accessToken := token\<rparr>)"

definition getRefreshToken :: "env \<Rightarrow> world \<Rightarrow> jsval" where
  "getRefreshToken e w = (if has_window e then getItem w ''refresh_token'' else JNull)"

definition setRefreshToken :: "env \<Rightarrow> jsval \<Rightarrow> world \<Rightarrow> world" where
  "setRefreshToken e token w = (if has_window e then setItem e ''refresh_token'' token w else w)"

definition clearTokens :: "env \<Rightarrow> world \<Rightarrow> world" where
  "clearTokens e w =
     (if has_window e
      then w\<lparr>accessToken := JNull,
             localStorage := (localStorage w)(''access_token'' := None, ''refresh_token'' := None)\<rparr>
      else w\<lparr>accessToken := JNull\<rparr>)"

definition fetch :: "env \<Rightarrow> request \<Rightarrow> world \<Rightarrow> fetch_result \<times> world" where
  "fetch e req w = (respond e (sent w @ [req]), w\<lparr>sent := sent w @ [req]\<rparr>)"

definition refresh_request :: "env \<Rightarrow> jsval \<Rightarrow> request" where
  "refresh_request e refreshToken =
     \<lparr>req_url = API_BASE e @ ''/auth/refresh'', req_method = Some ''POST'',
      req_headers = [(''Content-Type'', ''application/json'')],
      req_body = Some (JObject [(''refresh_token'', refreshToken)])\<rparr>"

text \<open>\<^verbatim>\<open>doRefresh\<close>: every exception inside its \<^verbatim>\<open>try\<close> makes it return false.\<close>

definition doRefresh :: "env \<Rightarrow> world \<Rightarrow> bool \<times> world" where
  "doRefresh e w =
     (let refreshToken = getRefreshToken e w in
      if \<not> truthy refreshToken then (False, w)
      else
        (case fetch e (refresh_request e refreshToken) w of
           (NetworkFailure, w1) \<Rightarrow> (False, w1)
         | (Response res, w1) \<Rightarrow>
             if \<not> res_ok res then (False, w1)
             else
               (case res_json res of
                  None \<Rightarrow> (False, w1)
                | Some data \<Rightarrow>
                    (case get_prop data ''access_token'' of
                       None \<Rightarrow> (False, w1)
                     | Some access \<Rightarrow>
                         (let w2 = setAccessToken e access w1 in
                          case get_prop data ''refresh_token'' of
                            None \<Rightarrow> (False, w2)
                          | Some refresh \<Rightarrow> (True, setRefreshToken e refresh w2))))))"

definition tryRefresh :: "env \<Rightarrow> world \<Rightarrow> bool \<times> world" where
  "tryRefresh e w = doRefresh e w"

text \<open>
  The options of a call (\<^verbatim>\<open>RequestInit\<close>): method, headers, body. The headers of the
  request are \<^verbatim>\<open>Content-Type\<close>, then the headers of the options spread over it, then
  \<^verbatim>\<open>Authorization\<close> when there is a token.
\<close>

record options =
  opt_method :: "string option"
  opt_headers :: "(string \<times> string) list"
  opt_body :: "jsval option"

definition no_options :: options where
  "no_options = \<lparr>opt_method = None, opt_headers = [], opt_body = None\<rparr>"

definition spread :: "(string \<times> string) list \<Rightarrow> (string \<times> string) list \<Rightarrow> (string \<times> string) list" where
  "spread src obj = foldl (\<lambda>acc (k, v). set_prop k v acc) obj src"

definition base_headers :: "options \<Rightarrow> (string \<times> string) list" where
  "base_headers opts = spread (opt_headers opts) [(''Content-Type'', ''application/json'')]"

definition bearer :: "env \<Rightarrow> jsval \<Rightarrow> string" where
  "bearer e token = ''Bearer '' @ ToString e token"

definition api_request :: "env \<Rightarrow> string \<Rightarrow> options \<Rightarrow> (string \<times> string) list \<Rightarrow> request" where
  "api_request e path opts headers =
     \<lparr>req_url = API_BASE e @ path, req_method = opt_method opts, req_headers = headers,
      req_body = opt_body opts\<rparr>"

text \<open>
  The ApiError thrown for a response that is not ok: \<open>data\<close> is the parsed body, or the
  empty object when the body is not JSON; the message is \<^verbatim>\<open>data.error || fallback\<close>,
  converted to a string by the constructor of Error. Reading \<^verbatim>\<open>data.error\<close> on null
  throws a TypeError instead.
\<close>

definition api_failure :: "env \<Rightarrow> response \<Rightarrow> string \<Rightarrow> thrown" where
  "api_failure e res fallback =
     (let data = (case res_json res of None \<Rightarrow> JObject [] | Some d \<Rightarrow> d) in
      case get_prop data ''error'' of
        None \<Rightarrow> TypeError
      | Some err \<Rightarrow>
          ApiError (res_status res) (ToString e (if truthy err then err else JString fallback)) data)"

definition json_body :: "response \<Rightarrow> jsval result" where
  "json_body res = (case res_json res of None \<Rightarrow> Threw SyntaxError | Some v \<Rightarrow> Returned v)"

definition apiFetch :: "env \<Rightarrow> string \<Rightarrow> options \<Rightarrow> world \<Rightarrow> jsval result \<times> world" where
  "apiFetch e path opts w =
     (case getAccessToken e w of
        (token, w0) \<Rightarrow>
          (let headers = (if truthy token then set_prop ''Authorization'' (bearer e token) (base_headers opts)
                          else base_headers opts)
           in case fetch e (api_request e path opts headers) w0 of
                (NetworkFailure, w1) \<Rightarrow> (Threw FetchRejected, w1)
              | (Response res, w1) \<Rightarrow>
                  if res_status res = 401 \<and> truthy token then
                    (case tryRefresh e w1 of
                       (True, w2) \<Rightarrow>
                         (case getAccessToken e w2 of
                            (token2, w3) \<Rightarrow>
                              (case fetch e (api_request e path opts
                                       (set_prop ''Authorization'' (bearer e token2) headers)) w3 of
                                 (NetworkFailure, w4) \<Rightarrow> (Threw FetchRejected, w4)
                               | (Response retryRes, w4) \<Rightarrow>
                                   if \<not> res_ok retryRes
                                   then (Threw (api_failure e retryRes ''Request failed''), w4)
                                   else (json_body retryRes, w4)))
                     | (False, w2) \<Rightarrow>
                         (Threw (ApiError 401 ''Session expired'' JUndefined),
                          (if has_window e then (clearTokens e w2)\<lparr>location_href := ''/login''\<rparr>
                           else clearTokens e w2)))
                  else if \<not> res_ok res
                    then (Threw (api_failure e res (''HTTP '' @ dec (res_status res))), w1)
                  else (json_body res, w1)))"

text \<open>
  The locals of apiFetch, to state what it does: the token it reads, its first request and
  the response to it (\<^verbatim>\<open>res\<close>), the result of tryRefresh (\<^verbatim>\<open>refreshed\<close>) and the
  response to the retry (\<^verbatim>\<open>retryRes\<close>).
\<close>

definition token_of :: "env \<Rightarrow> world \<Rightarrow> jsval" where
  "token_of e w = fst (getAccessToken e w)"

definition first_request :: "env \<Rightarrow> string \<Rightarrow> options \<Rightarrow> world \<Rightarrow> request" where
  "first_request e path opts w =
     api_request e path opts
       (if truthy (token_of e w)
        then set_prop ''Authorization'' (bearer e (token_of e w)) (base_headers opts)
        else base_headers opts)"

definition first_response :: "env \<Rightarrow> string \<Rightarrow> options \<Rightarrow> world \<Rightarrow> fetch_result" where
  "first_response e path opts w = respond e (sent w @ [first_request e path opts w])"

definition world_after_first :: "env \<Rightarrow> string \<Rightarrow> options \<Rightarrow> world \<Rightarrow> world" where
  "world_after_first e path opts w =
     (snd (getAccessToken e w))\<lparr>sent := sent w @ [first_request e path opts w]\<rparr>"

definition refreshed :: "env \<Rightarrow> string \<Rightarrow> options \<Rightarrow> world \<Rightarrow> bool" where
  "refreshed e path opts w = fst (tryRefresh e (world_after_first e path opts w))"

definition retry_request :: "env \<Rightarrow> string \<Rightarrow> options \<Rightarrow> world \<Rightarrow> request" where
  "retry_request e path opts w =
     api_request e path opts
       (set_prop ''Authorization''
          (bearer e (token_of e (snd (tryRefresh e (world_after_first e path opts w)))))
          (req_headers (first_request e path opts w)))"

definition retry_response :: "env \<Rightarrow> string \<Rightarrow> options \<Rightarrow> world \<Rightarrow> fetch_result" where
  "retry_response e path opts w =
     respond e (sent (snd (tryRefresh e (world_after_first e path opts w)))
                @ [retry_request e path opts w])"

definition world_after_retry :: "env \<Rightarrow> string \<Rightarrow> options \<Rightarrow> world \<Rightarrow> world" where
  "world_after_retry e path opts w =
     (snd (getAccessToken e (snd (tryRefresh e (world_after_first e path opts w)))))
       \<lparr>sent := sent (snd (tryRefresh e (world_after_first e path opts w)))
                @ [retry_request e path opts w]\<rparr>"

definition world_logged_out :: "env \<Rightarrow> string \<Rightarrow> options \<Rightarrow> world \<Rightarrow> world" where
  "world_logged_out e path opts w =
     (if has_window e
      then (clearTokens e (snd (tryRefresh e (world_after_first e path opts w))))\<lparr>location_href := ''/login''\<rparr>
      else clearTokens e (snd (tryRefresh e (world_after_first e path opts w))))"




section \<open>Query strings and the list calls of agentApi\<close>

text \<open>
  \<^verbatim>\<open>URLSearchParams\<close>: the list of its pairs; \<^verbatim>\<open>set\<close> writes the first pair of the name
  and removes the others, or appends; \<^verbatim>\<open>toString\<close> is the form-urlencoded text (a code
  unit from 128 to 255 is encoded through its two UTF-8 bytes).
\<close>

fun qs_set :: "string \<Rightarrow> string \<Rightarrow> (string \<times> string) list \<Rightarrow> (string \<times> string) list" where
  "qs_set k v [] = [(k, v)]"
| "qs_set k v ((k', v') # ps) =
     (if k' = k then (k, v) # filter (\<lambda>p. fst p \<noteq> k) ps else (k', v') # qs_set k v ps)"

definition unreserved :: "char \<Rightarrow> bool" where
  "unreserved c =
     (c \<in> set ''abcdefghijklmnopqrstuvwxyzABCDEFGHIJKLMNOPQRSTUVWXYZ0123456789*-._'')"

definition pct :: "nat \<Rightarrow> string" where
  "pct n = [CHR ''%'', ''0123456789ABCDEF'' ! (n div 16), ''0123456789ABCDEF'' ! (n mod 16)]"

definition urlencode_char :: "char \<Rightarrow> string" where
  "urlencode_char c =
     (if unreserved c then [c]
      else if c = CHR '' '' then ''+''
      else if (of_char c :: nat) < 128 then pct (of_char c)
      else pct (192 + of_char c div 64) @ pct (128 + of_char c mod 64))"

definition urlencode :: "string \<Rightarrow> string" where
  "urlencode s = concat (map urlencode_char s)"

fun qs_toString :: "(string \<times> string) list \<Rightarrow> string" where
  "qs_toString [] = ''''"
| "qs_toString [(k, v)] = urlencode k @ ''='' @ urlencode v"
| "qs_toString ((k, v) # p # ps) = urlencode k @ ''='' @ urlencode v @ ''&'' @ qs_toString (p # ps)"

definition query_suffix :: "(string \<times> string) list \<Rightarrow> string" where
  "query_suffix qs = (if qs_toString qs = '''' then '''' else ''?'' @ qs_toString qs)"

text \<open>
  \<^verbatim>\<open>if (params?.k) qs.set(k, ...)\<close> for a string and for a number parameter: \<open>None\<close> is a
  parameter that is absent (or a \<^verbatim>\<open>params\<close> that is); a present one is set when it is
  truthy.
\<close>

definition set_if_string :: "string \<Rightarrow> string option \<Rightarrow> (string \<times> string) list \<Rightarrow> (string \<times> string) list" where
  "set_if_string k v qs = (case v of None \<Rightarrow> qs | Some s \<Rightarrow> if s \<noteq> '''' then qs_set k s qs else qs)"

definition set_if_number ::
  "env \<Rightarrow> string \<Rightarrow> number option \<Rightarrow> (string \<times> string) list \<Rightarrow> (string \<times> string) list" where
  "set_if_number e k v qs =
     (case v of
        None \<Rightarrow> qs
      | Some n \<Rightarrow> if truthy_number n then qs_set k (number_to_string (fmt_number e) n) qs else qs)"

definition list_qs ::
  "env \<Rightarrow> string option \<Rightarrow> string option \<Rightarrow> number option \<Rightarrow> number option \<Rightarrow> (string \<times> string) list" where
  "list_qs e status grp limit offset =
     set_if_number e ''offset'' offset
       (set_if_number e ''limit'' limit
          (set_if_string ''group_id'' grp (set_if_string ''status'' status [])))"

definition list_path ::
  "env \<Rightarrow> string option \<Rightarrow> string option \<Rightarrow> number option \<Rightarrow> number option \<Rightarrow> string" where
  "list_path e status grp limit offset = ''/agents'' @ query_suffix (list_qs e status grp limit offset)"

definition agentApi_list ::
  "env \<Rightarrow> string option \<Rightarrow> string option \<Rightarrow> number option \<Rightarrow> number option \<Rightarrow> world
     \<Rightarrow> jsval result \<times> world" where
  "agentApi_list e status grp limit offset w =
     apiFetch e (list_path e status grp limit offset) no_options w"

definition getEvents_qs :: "env \<Rightarrow> string option \<Rightarrow> number option \<Rightarrow> (string \<times> string) list" where
  "getEvents_qs e evtype limit = set_if_number e ''limit'' limit (set_if_string ''type'' evtype [])"

definition getEvents_path :: "env \<Rightarrow> string \<Rightarrow> string option \<Rightarrow> number option \<Rightarrow> string" where
  "getEvents_path e agentId evtype limit = ''/agents/'' @ agentId @ ''/events'' @ query_suffix (getEvents_qs e evtype limit)"

definition getEvents ::
  "env \<Rightarrow> string \<Rightarrow> string option \<Rightarrow> number option \<Rightarrow> world \<Rightarrow> jsval result \<times> world" where
  "getEvents e agentId evtype limit w = apiFetch e (getEvents_path e agentId evtype limit) no_options w"

definition getCommands_qs :: "env \<Rightarrow> string option \<Rightarrow> number option \<Rightarrow> (string \<times> string) list" where
  "getCommands_qs e status limit = set_if_number e ''limit'' limit (set_if_string ''status'' status [])"

definition getCommands_path :: "env \<Rightarrow> string \<Rightarrow> string option \<Rightarrow> number option \<Rightarrow> string" where
  "getCommands_path e agentId status limit =
     ''/agents/'' @ agentId @ ''/commands'' @ query_suffix (getCommands_qs e status limit)"

definition getCommands ::
  "env \<Rightarrow> string \<Rightarrow> string option \<Rightarrow> number option \<Rightarrow> world \<Rightarrow> jsval result \<times> world" where
  "getCommands e agentId status limit w = apiFetch e (getCommands_path e agentId status limit) no_options w"




section \<open>An example browser session\<close>

text \<open>
  A browser with the default API base, and a signed-in session: the access token \<^verbatim>\<open>t0\<close>
  in memory and in the local storage, the refresh token \<^verbatim>\<open>r0\<close>. In this browser the
  values parsed from JSON have the \<^verbatim>\<open>toString\<close> of their prototypes: an array is its
  elements joined by commas (null and undefined as the empty string), any other object is
  \<^verbatim>\<open>[object Object]\<close>. The server of \<open>expiring\<close> answers the first request with 401, the
  second (the refresh) with new tokens, and every later request with the given response.
\<close>

fun plain_to_string :: "(rat \<Rightarrow> string) \<Rightarrow> jsval \<Rightarrow> string"
  and join_elements :: "(rat \<Rightarrow> string) \<Rightarrow> jsval list \<Rightarrow> string" where
  "plain_to_string fmt JUndefined = ''undefined''"
| "plain_to_string fmt JNull = ''null''"
| "plain_to_string fmt (JBool b) = (if b then ''true'' else ''false'')"
| "plain_to_string fmt (JNumber n) = number_to_string fmt n"
| "plain_to_string fmt (JString s) = s"
| "plain_to_string fmt (JArray xs) = join_elements fmt xs"
| "plain_to_string fmt (JObject ps) = ''[object Object]''"
| "join_elements fmt [] = ''''"
| "join_elements fmt (x # xs) =
     (if x = JNull \<or> x = JUndefined then '''' else plain_to_string fmt x)
     @ (if xs = [] then '''' else '','' @ join_elements fmt xs)"

definition browser :: "(request list \<Rightarrow> fetch_result) \<Rightarrow> env" where
  "browser server =
     \<lparr>fmt_number = (\<lambda>q. ''?''), object_to_string = plain_to_string (\<lambda>q. ''?''),
      has_window = True, NEXT_PUBLIC_API_URL = None, respond = server\<rparr>"

definition signed_in :: world where
  "signed_in =
     \<lparr>accessToken = JString ''t0'',
      localStorage = [''access_token'' \<mapsto> ''t0'', ''refresh_token'' \<mapsto> ''r0''],
      location_href = ''/dashboard/alerts'', sent = []\<rparr>"

definition always :: "response \<Rightarrow> request list \<Rightarrow> fetch_result" where
  "always res reqs = Response res"

definition expiring :: "response \<Rightarrow> request list \<Rightarrow> fetch_result" where
  "expiring final reqs =
     (if length reqs = 1
      then Response \<lparr>res_status = 401, res_json = Some (JObject [(''error'', JString ''token expired'')])\<rparr>
      else if length reqs = 2
      then Response \<lparr>res_status = 200,
             res_json = Some (JObject [(''access_token'', JString ''t1''),
                                      (''refresh_token'', JString ''r1'')])\<rparr>
      else Response final)"




section \<open>Facts about numbers and strings\<close>

lemma js_le_iff_not_lt: "\<not> Number_isNaN x \<Longrightarrow> js_le (Num c) x = (\<not> js_lt x (Num c))"
  by (cases x) auto

lemma js_lt_NaN_right [simp]: "js_lt x NaN = False"
  by (cases x) auto










section \<open>Facts about the rules page\<close>

lemma js_le_of_not_lt: "\<not> js_lt w (Num c) \<Longrightarrow> \<not> Number_isNaN w \<Longrightarrow> js_le (Num c) w"
  by (simp add: js_le_iff_not_lt)

text \<open>
  handleCreateRule either makes no call, or all four checks passed and the first call is
  createGroupRule with the fields of the form (name and threshold trimmed), followed at most
  by the listGroupRules of fetchRules.
\<close>

lemma handleCreateRule_calls_cases:
  "snd (handleCreateRule c l st) = [] \<or>
   (selectedGroupId st \<noteq> '''' \<and> trim (ruleName (form st)) \<noteq> '''' \<and> trim (ruleThreshold (form st)) \<noteq> ''''
    \<and> \<not> js_lt (ruleWindow (form st)) (Num 1) \<and> \<not> Number_isNaN (ruleWindow (form st))
    \<and> (\<exists>rest. snd (handleCreateRule c l st) =
          CreateGroupRule (selectedGroupId st)
              \<lparr>name = trim (ruleName (form st)), metric = ruleMetric (form st),
               operator = ruleOperator (form st), threshold = trim (ruleThreshold (form st)),
               rule_severity = ruleSeverity (form st), window_seconds = ruleWindow (form st)\<rparr> # rest
          \<and> set rest \<subseteq> {ListGroupRules (selectedGroupId st)}))"
  by (auto simp: handleCreateRule_def Let_def split: outcome.splits)

lemma spec_parses_as_number_examples: "spec_parses_as_number ''90''" "spec_parses_as_number '' -1.5e+3 ''" "spec_parses_as_number ''.5''" "\<not> spec_parses_as_number ''disconnected''"
  "\<not> spec_parses_as_number ''1.2.3''" "\<not> spec_parses_as_number ''''" "\<not> spec_parses_as_number ''12a''" "\<not> spec_parses_as_number ''.''"  "\<not> spec_parses_as_number ''1e''"
  by (simp_all add: trim_def is_whitespace_def 
      spec_parses_as_number_def strip_sign_def is_digit_def is_exponent_def Let_def)

lemma previewText_deps: "previewDeps f = previewDeps g \<Longrightarrow> previewText fmt f = previewText fmt g"
  by (simp add: previewDeps_def previewText_def)

lemma render_previews_cache:
  "(case cache of None \<Rightarrow> True | Some (d, v) \<Rightarrow> (\<exists>f. d = previewDeps f \<and> v = previewText fmt f))
    \<Longrightarrow> render_previews fmt cache fs = map (previewText fmt) fs"
proof (induction fs arbitrary: cache)
  case Nil
  then show ?case by simp
next
  case (Cons f fs)
  show ?case
  proof (cases cache)
    case None
    then show ?thesis
      using Cons.IH [of "Some (previewDeps f, previewText fmt f)"]
      by (auto simp: useMemo_previewText_def)
  next
    case (Some a)
    obtain d v where a: "a = (d, v)" by (cases a)
    from Cons.prems Some a obtain g where g: "d = previewDeps g" "v = previewText fmt g" by auto
    show ?thesis
    proof (cases "d = previewDeps f")
      case True
      then have "v = previewText fmt f" using g previewText_deps [of g f fmt] by simp
      then show ?thesis using Some a True Cons.IH [of cache] Cons.prems
        by (simp add: useMemo_previewText_def)
    next
      case False
      then show ?thesis using Some a Cons.IH [of "Some (previewDeps f, previewText fmt f)"]
        by (auto simp: useMemo_previewText_def)
    qed
  qed
qed

lemma digit_nth:
  assumes "k < 10"
  shows "of_char (''0123456789'' ! k) = 48 + k" "''0123456789'' ! k \<in> set ''0123456789''"
proof -
  from assms have "k = 0 \<or> k = 1 \<or> k = 2 \<or> k = 3 \<or> k = 4 \<or> k = 5 \<or> k = 6
    \<or> k = 7 \<or> k = 8 \<or> k = 9"
    by arith
  then show "of_char (''0123456789'' ! k) = 48 + k" by (elim disjE) simp_all
  from assms show "''0123456789'' ! k \<in> set ''0123456789''"
    by (intro nth_mem) simp
qed

lemma decimal_value_snoc: "decimal_value (s @ [c]) = 10 * decimal_value s + (of_char c - 48)"
  by (simp add: decimal_value_def)

lemma decimal_value_dec: "decimal_value (dec n) = n"
proof (induction n rule: dec.induct)
  case (1 n)
  show ?case
  proof (cases "n < 10")
    case True
    then show ?thesis
      using digit_nth(1) [of n] by (subst dec.simps) (simp add: decimal_value_def)
  next
    case False
    have m: "n mod 10 < 10" by simp
    from False 1 have "decimal_value (dec (n div 10)) = n div 10" by simp
    with False show ?thesis
      using digit_nth(1) [OF m] by (subst dec.simps) (simp add: decimal_value_snoc)
  qed
qed

lemma dec_digits: "dec n \<noteq> [] \<and> list_all is_digit (dec n)"
proof (induction n rule: dec.induct)
  case (1 n)
  show ?case
  proof (cases "n < 10")
    case True
    then show ?thesis
      using digit_nth(2) [of n] unfolding is_digit_def by (subst dec.simps, subst (2) dec.simps) simp
  next
    case False
    have m: "n mod 10 < 10" by simp
    from False 1 have "list_all is_digit (dec (n div 10))" by simp
    with False show ?thesis
      using digit_nth(2) [OF m] unfolding is_digit_def by (subst dec.simps, subst (2) dec.simps) simp
  qed
qed

lemma number_to_string_nat:
  "n \<le> 9007199254740992 \<Longrightarrow> number_to_string fmt (Num (of_nat n)) = dec n"
proof -
  assume a: "n \<le> 9007199254740992"
  have "(of_nat n :: rat) \<le> of_nat 9007199254740992" using a by (simp only: of_nat_le_iff)
  then show ?thesis by (simp add: number_to_string_def)
qed

lemma previewText_severity:
  "previewText fmt f = previewText fmt g \<Longrightarrow> ruleSeverity f = ruleSeverity g"
  by (cases "ruleSeverity f"; cases "ruleSeverity g") (simp_all add: previewText_def)

lemma template_operators:
  "\<forall>t \<in> set RULE_TEMPLATES. ruleOperator (template_form t) \<in> set OPERATOR_OPTIONS"
  by (simp add: RULE_TEMPLATES_def OPERATOR_OPTIONS_def)

lemma form_step_operator:
  "ruleOperator f \<in> set OPERATOR_OPTIONS \<Longrightarrow> ruleOperator (form_step f a) \<in> set OPERATOR_OPTIONS"
  using template_operators by (cases a) (auto simp del: set_simps)

lemma foldl_form_step_operator:
  "ruleOperator f \<in> set OPERATOR_OPTIONS \<Longrightarrow> ruleOperator (foldl form_step f acts) \<in> set OPERATOR_OPTIONS"
  by (induction acts arbitrary: f) (simp_all add: form_step_operator)

section \<open>Facts about the alerts page\<close>

lemma collect_headers_ok:
  "(\<exists>m. collect_headers es r = Inr m) = (\<forall>(k, x) \<in> set es. \<exists>s. x = JString s)"
  by (induction es r rule: collect_headers.induct) (auto split: jsval.splits)

lemma parseHeadersJson_ok:
  "(\<exists>m. parseHeadersJson P v = Inr m)
     = (trim v = '''' \<or> (\<exists>es. P v = Inr (JObject es) \<and> (\<forall>(k, x) \<in> set es. \<exists>s. x = JString s)))"
proof (cases "trim v = ''''")
  case True
  then show ?thesis by (simp add: parseHeadersJson_def)
next
  case False
  show ?thesis
  proof (cases "P v")
    case (Inl msg)
    with False show ?thesis by (simp add: parseHeadersJson_def)
  next
    case (Inr parsed)
    with False show ?thesis
      using collect_headers_ok [of _ "[]"]
      by (cases parsed) (simp_all add: parseHeadersJson_def)
  qed
qed

text \<open>Every header returned is a string-valued entry of the parsed object.\<close>

lemma set_prop_subset: "set (set_prop k v ps) \<subseteq> insert (k, v) (set ps)"
  by (induction ps) (auto split: if_splits)

lemma collect_headers_entries:
  "collect_headers es r = Inr m \<Longrightarrow> set m \<subseteq> set r \<union> {(k, s). (k, JString s) \<in> set es}"
proof (induction es r rule: collect_headers.induct)
  case (1 result)
  then show ?case by simp
next
  case (2 k v entries result)
  from "2.prems" obtain s where v: "v = JString s" by (cases v) auto
  with "2.prems" have "collect_headers entries (assign_prop k s result) = Inr m" by simp
  from "2.IH" [OF v this]
  have "set m \<subseteq> set (assign_prop k s result) \<union> {(k, s). (k, JString s) \<in> set entries}" .
  moreover have "set (assign_prop k s result) \<subseteq> insert (k, s) (set result)"
    using set_prop_subset [of k s result] by (auto simp: assign_prop_def)
  ultimately show ?case using v by auto
qed

lemma handleCreateChannel_parse_failed:
  assumes "channelType st = webhook" and "parseHeadersJson P (webhookHeaders st) = Inl e"
  shows "snd (handleCreateChannel P c l st) = []
           \<and> error (fst (handleCreateChannel P c l st))
               \<in> {''Please select a group first.'', ''Please enter email or webhook URL.'', e}"
  using assms by (auto simp: handleCreateChannel_def)

lemma handleCreateChannel_called:
  assumes "channelType st = webhook"
    and "CreateGroupAlertChannel g d \<in> set (snd (handleCreateChannel P c l st))"
  shows "\<exists>h. parseHeadersJson P (webhookHeaders st) = Inr h \<and> webhook_headers d = Some h"
  using assms
  by (auto simp: handleCreateChannel_def Let_def split: sum.splits outcome.splits if_splits)

section \<open>Facts about the fetch wrapper\<close>

lemma getAccessToken_keeps:
  "sent (snd (getAccessToken e w)) = sent w"
  "localStorage (snd (getAccessToken e w)) = localStorage w"
  "location_href (snd (getAccessToken e w)) = location_href w"
  by (simp_all add: getAccessToken_def)

lemma setItem_keeps:
  "sent (setItem e k v w) = sent w"
  "location_href (setItem e k v w) = location_href w"
  by (simp_all add: setItem_def)

lemma setAccessToken_keeps:
  "sent (setAccessToken e v w) = sent w"
  "location_href (setAccessToken e v w) = location_href w"
  by (simp_all add: setAccessToken_def setItem_keeps)

lemma setRefreshToken_keeps:
  "sent (setRefreshToken e v w) = sent w"
  "location_href (setRefreshToken e v w) = location_href w"
  by (simp_all add: setRefreshToken_def setItem_keeps)

lemma doRefresh_sent:
  "sent (snd (doRefresh e w)) = sent w
   \<or> sent (snd (doRefresh e w)) = sent w @ [refresh_request e (getRefreshToken e w)]"
  by (auto simp: doRefresh_def fetch_def Let_def setAccessToken_keeps setRefreshToken_keeps
      split: fetch_result.splits option.splits)

lemma world_after_first_keeps:
  "sent (world_after_first e path opts w) = sent w @ [first_request e path opts w]"
  "localStorage (world_after_first e path opts w) = localStorage w"
  "location_href (world_after_first e path opts w) = location_href w"
  by (simp_all add: world_after_first_def getAccessToken_keeps)

lemma getRefreshToken_after_first:
  "getRefreshToken e (world_after_first e path opts w) = getRefreshToken e w"
  by (simp add: getRefreshToken_def getItem_def world_after_first_keeps)

lemma tryRefresh_sent:
  "sent (snd (tryRefresh e (world_after_first e path opts w))) = sent w @ [first_request e path opts w]
   \<or> sent (snd (tryRefresh e (world_after_first e path opts w)))
       = sent w @ [first_request e path opts w, refresh_request e (getRefreshToken e w)]"
  using doRefresh_sent [of e "world_after_first e path opts w"]
  by (simp add: tryRefresh_def world_after_first_keeps getRefreshToken_after_first)

lemma clearTokens_sent: "sent (clearTokens e w) = sent w"
  by (simp add: clearTokens_def)

lemma world_after_retry_sent:
  "sent (world_after_retry e path opts w)
     = sent (snd (tryRefresh e (world_after_first e path opts w))) @ [retry_request e path opts w]"
  by (simp add: world_after_retry_def)

lemma world_logged_out_sent:
  "sent (world_logged_out e path opts w) = sent (snd (tryRefresh e (world_after_first e path opts w)))"
  by (simp add: world_logged_out_def clearTokens_sent)

lemma apiFetch_unfold:
  "apiFetch e path opts w =
     (case first_response e path opts w of
        NetworkFailure \<Rightarrow> (Threw FetchRejected, world_after_first e path opts w)
      | Response res \<Rightarrow>
          if res_status res = 401 \<and> truthy (token_of e w) then
            (if refreshed e path opts w then
               (case retry_response e path opts w of
                  NetworkFailure \<Rightarrow> (Threw FetchRejected, world_after_retry e path opts w)
                | Response retryRes \<Rightarrow>
                    (if \<not> res_ok retryRes then Threw (api_failure e retryRes ''Request failed'')
                     else json_body retryRes, world_after_retry e path opts w))
             else (Threw (ApiError 401 ''Session expired'' JUndefined), world_logged_out e path opts w))
          else (if \<not> res_ok res then Threw (api_failure e res (''HTTP '' @ dec (res_status res)))
                else json_body res, world_after_first e path opts w))"
proof -
  obtain token w0 where g: "getAccessToken e w = (token, w0)" by (cases "getAccessToken e w")
  have s0: "sent w0 = sent w" using getAccessToken_keeps(1) [of e w] g by simp
  let ?req = "first_request e path opts w"
  let ?w1 = "world_after_first e path opts w"
  have w1: "?w1 = w0\<lparr>sent := sent w @ [?req]\<rparr>" using g by (simp add: world_after_first_def)
  have rq: "?req = api_request e path opts
       (if truthy token then set_prop ''Authorization'' (bearer e token) (base_headers opts)
        else base_headers opts)"
    using g by (simp add: first_request_def token_of_def)
  obtain b w2 where t: "tryRefresh e ?w1 = (b, w2)" by (cases "tryRefresh e ?w1")
  obtain token2 w3 where g2: "getAccessToken e w2 = (token2, w3)" by (cases "getAccessToken e w2")
  have s3: "sent w3 = sent w2" using getAccessToken_keeps(1) [of e w2] g2 by simp
  have f1: "fetch e ?req w0 = (first_response e path opts w, ?w1)"
    by (simp add: fetch_def first_response_def s0 w1)
  have rr: "retry_request e path opts w = api_request e path opts
       (set_prop ''Authorization'' (bearer e token2) (req_headers ?req))"
    using t g2 by (simp add: retry_request_def token_of_def)
  have f2: "fetch e (retry_request e path opts w) w3
      = (retry_response e path opts w, world_after_retry e path opts w)"
    using t g2 by (simp add: fetch_def retry_response_def world_after_retry_def s3)
  have hd: "req_headers ?req = (if truthy token then set_prop ''Authorization'' (bearer e token) (base_headers opts)
        else base_headers opts)"
    by (simp add: rq api_request_def)
  have tk: "token_of e w = token" using g by (simp add: token_of_def)
  have rf: "refreshed e path opts w = b" using t by (simp add: refreshed_def)
  have lo: "world_logged_out e path opts w =
      (if has_window e then (clearTokens e w2)\<lparr>location_href := ''/login''\<rparr> else clearTokens e w2)"
    using t by (simp add: world_logged_out_def)
  show ?thesis
    unfolding apiFetch_def g prod.case Let_def rq [symmetric] f1 tk rf
    using t g2 f2 rr hd lo
    by (cases "first_response e path opts w"; cases b; cases "retry_response e path opts w";
        cases "truthy token")
       (simp_all add: tk)
qed

text \<open>
  The requests of one call: the first request, then at most the refresh request and the
  retry.
\<close>

lemma apiFetch_requests:
  "\<exists>rest. sent (snd (apiFetch e path opts w)) = sent w @ first_request e path opts w # rest
     \<and> set rest \<subseteq> {refresh_request e (getRefreshToken e w), retry_request e path opts w}"
proof -
  have a: "\<exists>rest. sent (world_after_first e path opts w) = sent w @ first_request e path opts w # rest
     \<and> set rest \<subseteq> {refresh_request e (getRefreshToken e w), retry_request e path opts w}"
    by (simp add: world_after_first_keeps)
  have b: "\<exists>rest. sent (world_after_retry e path opts w) = sent w @ first_request e path opts w # rest
     \<and> set rest \<subseteq> {refresh_request e (getRefreshToken e w), retry_request e path opts w}"
    using tryRefresh_sent [of e path opts w] by (auto simp: world_after_retry_sent)
  have c: "\<exists>rest. sent (world_logged_out e path opts w) = sent w @ first_request e path opts w # rest
     \<and> set rest \<subseteq> {refresh_request e (getRefreshToken e w), retry_request e path opts w}"
    using tryRefresh_sent [of e path opts w] by (auto simp: world_logged_out_sent)
  show ?thesis
    unfolding apiFetch_unfold using a b c
    by (simp split: fetch_result.splits)
qed






















section \<open>Facts about query strings\<close>





lemma qs_toString_empty: "(qs_toString ps = '''') = (ps = [])"
  by (induction ps rule: qs_toString.induct) auto

lemma query_suffix_Nil [simp]: "query_suffix [] = ''''"
  by (simp add: query_suffix_def)


section \<open>Facts about failures and the list calls\<close>

lemma api_failure_cases:
  "res_json r = Some (JObject ps) \<Longrightarrow> map_of ps ''error'' = Some (JString s) \<Longrightarrow> s \<noteq> ''''
     \<Longrightarrow> api_failure e r fb = ApiError (res_status r) s (JObject ps)"
  "res_json r = Some (JObject ps) \<Longrightarrow>
     map_of ps ''error'' = None \<or> (\<exists>v. map_of ps ''error'' = Some v \<and> \<not> truthy v)
     \<Longrightarrow> api_failure e r fb = ApiError (res_status r) fb (JObject ps)"
  "res_json r = None \<Longrightarrow> api_failure e r fb = ApiError (res_status r) fb (JObject [])"
  by (auto simp: api_failure_def ToString_def)







section \<open>Claims\<close>



text \<open>
  C1, as the source has it. A submission whose window is below 1 or NaN makes no call of
  \<^verbatim>\<open>agentApi\<close> at all. The window is the fourth check: when a group is selected and the
  name and the threshold are not blank, the error is \<^verbatim>\<open>Window must be at least 1 second.\<close>
  (otherwise an earlier check has set its own message). Every createGroupRule call of the
  handler carries a \<open>window_seconds\<close> of at least 1.
\<close>

theorem handleCreateRule_window_guard:
  "((js_lt (ruleWindow (form st)) (Num 1) \<or> Number_isNaN (ruleWindow (form st)))
      \<longrightarrow> snd (handleCreateRule c l st) = [])
   \<and> (selectedGroupId st \<noteq> '''' \<and> trim (ruleName (form st)) \<noteq> ''''
        \<and> trim (ruleThreshold (form st)) \<noteq> ''''
        \<and> (js_lt (ruleWindow (form st)) (Num 1) \<or> Number_isNaN (ruleWindow (form st)))
      \<longrightarrow> error (fst (handleCreateRule c l st)) = ''Window must be at least 1 second.'')
   \<and> (\<forall>g d. CreateGroupRule g d \<in> set (snd (handleCreateRule c l st))
        \<longrightarrow> js_le (Num 1) (window_seconds d))"
proof (intro conjI impI allI)
  assume "js_lt (ruleWindow (form st)) (Num 1) \<or> Number_isNaN (ruleWindow (form st))"
  then show "snd (handleCreateRule c l st) = []"
    by (auto simp: handleCreateRule_def)
next
  assume "selectedGroupId st \<noteq> '''' \<and> trim (ruleName (form st)) \<noteq> ''''
        \<and> trim (ruleThreshold (form st)) \<noteq> ''''
        \<and> (js_lt (ruleWindow (form st)) (Num 1) \<or> Number_isNaN (ruleWindow (form st)))"
  then show "error (fst (handleCreateRule c l st)) = ''Window must be at least 1 second.''"
    by (auto simp: handleCreateRule_def)
next
  fix g d
  assume a: "CreateGroupRule g d \<in> set (snd (handleCreateRule c l st))"
  from handleCreateRule_calls_cases [of c l st] a
  have "d = \<lparr>name = trim (ruleName (form st)), metric = ruleMetric (form st),
               operator = ruleOperator (form st), threshold = trim (ruleThreshold (form st)),
               rule_severity = ruleSeverity (form st), window_seconds = ruleWindow (form st)\<rparr>"
    and "\<not> js_lt (ruleWindow (form st)) (Num 1)" and "\<not> Number_isNaN (ruleWindow (form st))"
    by auto
  then show "js_le (Num 1) (window_seconds d)"
    by (simp add: js_le_of_not_lt)
qed

text \<open>
  The theorem at a selected group, the name \<^verbatim>\<open>cpu high\<close>, the threshold \<^verbatim>\<open>90\<close> and a window
  of half a second: no call, and the window message.
\<close>

theorem handleCreateRule_window_guard_witness:
  "js_lt (Num (1/2)) (Num 1)
   \<and> snd (handleCreateRule (Resolved (''r1'', True)) (Resolved ([] :: unit list))
        \<lparr>selectedGroupId = ''g1'', saving = False, error = '''', notice = '''',
         form = INITIAL_FORM\<lparr>ruleName := ''cpu high'', ruleWindow := Num (1/2)\<rparr>, rules = []\<rparr>) = []
   \<and> error (fst (handleCreateRule (Resolved (''r1'', True)) (Resolved ([] :: unit list))
        \<lparr>selectedGroupId = ''g1'', saving = False, error = '''', notice = '''',
         form = INITIAL_FORM\<lparr>ruleName := ''cpu high'', ruleWindow := Num (1/2)\<rparr>, rules = []\<rparr>))
       = ''Window must be at least 1 second.''"
proof -
  let ?st = "\<lparr>selectedGroupId = ''g1'', saving = False, error = '''', notice = '''',
         form = INITIAL_FORM\<lparr>ruleName := ''cpu high'', ruleWindow := Num (1/2)\<rparr>, rules = ([] :: unit list)\<rparr>"
  have w: "js_lt (ruleWindow (form ?st)) (Num 1)" by simp
  have pre: "selectedGroupId ?st \<noteq> '''' \<and> trim (ruleName (form ?st)) \<noteq> ''''
        \<and> trim (ruleThreshold (form ?st)) \<noteq> ''''"
    by (simp add: INITIAL_FORM_def trim_def is_whitespace_def)
  from handleCreateRule_window_guard [of ?st "Resolved (''r1'', True)" "Resolved []"] w pre
  show ?thesis by simp
qed

text \<open>
  C1 as it is stated fails on the fresh form (empty rule name) with the window set to 0 and
  a group selected: the window is below 1, and the error is the message of the name check.
\<close>

theorem handleCreateRule_window_message_counterexample:
  "js_lt (ruleWindow (INITIAL_FORM\<lparr>ruleWindow := Num 0\<rparr>)) (Num 1)
   \<and> error (fst (handleCreateRule (Resolved (''r1'', True)) (Resolved ([] :: unit list))
        \<lparr>selectedGroupId = ''g1'', saving = False, error = '''', notice = '''',
         form = INITIAL_FORM\<lparr>ruleWindow := Num 0\<rparr>, rules = []\<rparr>))
       = ''Please enter a rule name.''"
  by (simp add: handleCreateRule_def INITIAL_FORM_def trim_def)

text \<open>
  C2, as the source has it. handleCreateRule inspects neither the operator nor whether the
  threshold is numeric: whenever a group is selected, the name and the threshold are not
  blank and the window is at least 1, it calls createGroupRule with the operator as entered
  and the trimmed threshold. A rejection can only come from the server: the message of an
  \<^verbatim>\<open>ApiError\<close> of that call becomes the error of the page.
\<close>

theorem handleCreateRule_no_threshold_check:
  assumes "selectedGroupId st \<noteq> ''''" and "trim (ruleName (form st)) \<noteq> ''''"
    and "trim (ruleThreshold (form st)) \<noteq> ''''"
    and "js_le (Num 1) (ruleWindow (form st))"
  shows "(\<exists>rest. snd (handleCreateRule c l st) =
            CreateGroupRule (selectedGroupId st)
              \<lparr>name = trim (ruleName (form st)), metric = ruleMetric (form st),
               operator = ruleOperator (form st), threshold = trim (ruleThreshold (form st)),
               rule_severity = ruleSeverity (form st), window_seconds = ruleWindow (form st)\<rparr> # rest)
         \<and> (\<forall>m. c = RejectedApiError m \<longrightarrow> error (fst (handleCreateRule c l st)) = m)"
proof -
  have w: "\<not> js_lt (ruleWindow (form st)) (Num 1)" "\<not> Number_isNaN (ruleWindow (form st))"
    using assms(4) by (cases "ruleWindow (form st)"; simp)+
  with assms(1-3) show ?thesis
    by (auto simp: handleCreateRule_def Let_def split: outcome.splits)
qed

text \<open>
  The theorem at the operator \<^verbatim>\<open>>\<close> and the threshold \<^verbatim>\<open> abc\<close>, the server rejecting
  the rule.
\<close>

theorem handleCreateRule_no_threshold_check_witness:
  "js_le (Num 1) (Num 60)
   \<and> (\<exists>rest. snd (handleCreateRule (RejectedApiError ''threshold must be numeric'') (Resolved ([] :: unit list))
        \<lparr>selectedGroupId = ''g1'', saving = False, error = '''', notice = '''',
         form = \<lparr>ruleName = ''cpu text'', ruleMetric = ''cpu'', ruleOperator = ''>'',
                 ruleThreshold = '' abc'', ruleSeverity = warning, ruleWindow = Num 60\<rparr>, rules = []\<rparr>)
       = CreateGroupRule ''g1'' \<lparr>name = ''cpu text'', metric = ''cpu'', operator = ''>'',
          threshold = ''abc'', rule_severity = warning, window_seconds = Num 60\<rparr> # rest)
   \<and> error (fst (handleCreateRule (RejectedApiError ''threshold must be numeric'') (Resolved ([] :: unit list))
        \<lparr>selectedGroupId = ''g1'', saving = False, error = '''', notice = '''',
         form = \<lparr>ruleName = ''cpu text'', ruleMetric = ''cpu'', ruleOperator = ''>'',
                 ruleThreshold = '' abc'', ruleSeverity = warning, ruleWindow = Num 60\<rparr>, rules = []\<rparr>))
     = ''threshold must be numeric''"
proof -
  let ?st = "\<lparr>selectedGroupId = ''g1'', saving = False, error = '''', notice = '''',
         form = \<lparr>ruleName = ''cpu text'', ruleMetric = ''cpu'', ruleOperator = ''>'',
                 ruleThreshold = '' abc'', ruleSeverity = warning, ruleWindow = Num 60\<rparr>, rules = ([] :: unit list)\<rparr>"
  have t: "trim ''cpu text'' = ''cpu text''" "trim '' abc'' = ''abc''"
    by (simp_all add: trim_def is_whitespace_def)
  have pre: "selectedGroupId ?st \<noteq> ''''" "trim (ruleName (form ?st)) \<noteq> ''''"
     "trim (ruleThreshold (form ?st)) \<noteq> ''''" "js_le (Num 1) (ruleWindow (form ?st))"
    by (simp_all add: t)
  from handleCreateRule_no_threshold_check [OF pre, of "RejectedApiError ''threshold must be numeric''" "Resolved []"]
  show ?thesis by (simp add: t)
qed

text \<open>
  C2 as it is stated fails at the operator \<^verbatim>\<open>>\<close> with the threshold \<^verbatim>\<open>abc\<close>: an ordering
  operator, a threshold that does not parse as a number, and the handler calls
  createGroupRule and reports no error.
\<close>

theorem handleCreateRule_ordering_counterexample:
  "spec_ordering_operator ''>'' \<and> \<not> spec_parses_as_number ''abc''
   \<and> snd (handleCreateRule (Resolved (''r1'', True)) (Resolved ([] :: unit list))
        \<lparr>selectedGroupId = ''g1'', saving = False, error = '''', notice = '''',
         form = \<lparr>ruleName = ''cpu text'', ruleMetric = ''cpu'', ruleOperator = ''>'',
                 ruleThreshold = ''abc'', ruleSeverity = warning, ruleWindow = Num 60\<rparr>, rules = []\<rparr>)
     = [CreateGroupRule ''g1'' \<lparr>name = ''cpu text'', metric = ''cpu'', operator = ''>'',
          threshold = ''abc'', rule_severity = warning, window_seconds = Num 60\<rparr>,
        ListGroupRules ''g1'']
   \<and> error (fst (handleCreateRule (Resolved (''r1'', True)) (Resolved ([] :: unit list))
        \<lparr>selectedGroupId = ''g1'', saving = False, error = '''', notice = '''',
         form = \<lparr>ruleName = ''cpu text'', ruleMetric = ''cpu'', ruleOperator = ''>'',
                 ruleThreshold = ''abc'', ruleSeverity = warning, ruleWindow = Num 60\<rparr>, rules = []\<rparr>))
     = ''''"
  by (simp add: handleCreateRule_def trim_def is_whitespace_def spec_ordering_operator_def
      spec_parses_as_number_def strip_sign_def is_digit_def is_exponent_def Let_def)

text \<open>
  C5. The preview is a function of the five rule fields of the form: two forms that agree
  on severity, metric, operator, threshold and window have the same preview, whatever their
  names. It is the text \<^verbatim>\<open>Alert {severity} when {metric} {operator} {threshold} for
  {window}s or longer\<close> with the severity as its name (\<^verbatim>\<open>info\<close>, \<^verbatim>\<open>warning\<close>,
  \<^verbatim>\<open>critical\<close>), the metric, the operator and the threshold as they are, and the window as
  JavaScript prints the number: a whole number up to \<open>2^53\<close> as its decimal digits. Forms
  with the same preview have the same severity. And the memoised value shown at every
  render of any sequence of forms is the preview of the form of that render.
\<close>

theorem previewText_deterministic:
  "(ruleSeverity f = ruleSeverity g \<and> ruleMetric f = ruleMetric g \<and> ruleOperator f = ruleOperator g
      \<and> ruleThreshold f = ruleThreshold g \<and> ruleWindow f = ruleWindow g
     \<longrightarrow> previewText fmt f = previewText fmt g)
   \<and> previewText fmt f =
       ''Alert '' @ (case ruleSeverity f of info \<Rightarrow> ''info'' | warning \<Rightarrow> ''warning''
                      | critical \<Rightarrow> ''critical'')
         @ '' when '' @ ruleMetric f @ '' '' @ ruleOperator f @ '' '' @ ruleThreshold f
         @ '' for '' @ number_to_string fmt (ruleWindow f) @ ''s or longer''
   \<and> (n \<le> 9007199254740992 \<longrightarrow>
        number_to_string fmt (Num (of_nat n)) = dec n \<and> decimal_value (dec n) = n
        \<and> dec n \<noteq> [] \<and> list_all is_digit (dec n))
   \<and> (previewText fmt f = previewText fmt g \<longrightarrow> ruleSeverity f = ruleSeverity g)
   \<and> render_previews fmt None fs = map (previewText fmt) fs"
proof -
  have a: "previewText fmt f =
       ''Alert '' @ (case ruleSeverity f of info \<Rightarrow> ''info'' | warning \<Rightarrow> ''warning''
                      | critical \<Rightarrow> ''critical'')
         @ '' when '' @ ruleMetric f @ '' '' @ ruleOperator f @ '' '' @ ruleThreshold f
         @ '' for '' @ number_to_string fmt (ruleWindow f) @ ''s or longer''"
    by (cases "ruleSeverity f") (simp_all add: previewText_def)
  have b: "ruleSeverity f = ruleSeverity g \<and> ruleMetric f = ruleMetric g \<and> ruleOperator f = ruleOperator g
      \<and> ruleThreshold f = ruleThreshold g \<and> ruleWindow f = ruleWindow g
     \<longrightarrow> previewText fmt f = previewText fmt g"
    by (simp add: previewText_def)
  have c: "n \<le> 9007199254740992 \<longrightarrow>
        number_to_string fmt (Num (of_nat n)) = dec n \<and> decimal_value (dec n) = n
        \<and> dec n \<noteq> [] \<and> list_all is_digit (dec n)"
    using number_to_string_nat [of n fmt] decimal_value_dec [of n] dec_digits [of n] by blast
  have d: "previewText fmt f = previewText fmt g \<longrightarrow> ruleSeverity f = ruleSeverity g"
    using previewText_severity [of fmt f g] by blast
  have e: "render_previews fmt None fs = map (previewText fmt) fs"
    using render_previews_cache [where cache = None and fmt = fmt and fs = fs] by simp
  from b a c d e show ?thesis by (intro conjI)
qed

text \<open>
  The theorem at the form of the template \<^verbatim>\<open>usb-removed\<close> (critical) under two names, at
  a form of severity info with the window 300, and at four renders (the second with an
  unchanged dependency array, the fourth with the window NaN).
\<close>

theorem previewText_deterministic_witness:
  "previewText (\<lambda>q. ''?'') \<lparr>ruleName = ''USB removed'', ruleMetric = ''usb'', ruleOperator = ''=='',
        ruleThreshold = ''removed'', ruleSeverity = critical, ruleWindow = Num 1\<rparr>
     = previewText (\<lambda>q. ''?'') \<lparr>ruleName = ''other'', ruleMetric = ''usb'', ruleOperator = ''=='',
        ruleThreshold = ''removed'', ruleSeverity = critical, ruleWindow = Num 1\<rparr>
   \<and> previewText (\<lambda>q. ''?'') \<lparr>ruleName = ''USB removed'', ruleMetric = ''usb'', ruleOperator = ''=='',
        ruleThreshold = ''removed'', ruleSeverity = critical, ruleWindow = Num 1\<rparr>
     = ''Alert critical when usb == removed for 1s or longer''
   \<and> previewText (\<lambda>q. ''?'') \<lparr>ruleName = ''low memory'', ruleMetric = ''memory'', ruleOperator = ''<'',
        ruleThreshold = ''20'', ruleSeverity = info, ruleWindow = Num 300\<rparr>
     = ''Alert info when memory < 20 for 300s or longer''
   \<and> number_to_string (\<lambda>q. ''?'') (Num (of_nat 300)) = ''300'' \<and> decimal_value ''300'' = 300
   \<and> previewText (\<lambda>q. ''?'') \<lparr>ruleName = ''low memory'', ruleMetric = ''memory'', ruleOperator = ''<'',
        ruleThreshold = ''20'', ruleSeverity = info, ruleWindow = Num 300\<rparr>
     \<noteq> previewText (\<lambda>q. ''?'') \<lparr>ruleName = ''low memory'', ruleMetric = ''memory'', ruleOperator = ''<'',
        ruleThreshold = ''20'', ruleSeverity = warning, ruleWindow = Num 300\<rparr>
   \<and> render_previews (\<lambda>q. ''?'') None
       [\<lparr>ruleName = ''USB removed'', ruleMetric = ''usb'', ruleOperator = ''=='',
          ruleThreshold = ''removed'', ruleSeverity = critical, ruleWindow = Num 1\<rparr>,
        \<lparr>ruleName = ''other'', ruleMetric = ''usb'', ruleOperator = ''=='',
          ruleThreshold = ''removed'', ruleSeverity = critical, ruleWindow = Num 1\<rparr>,
        \<lparr>ruleName = ''low memory'', ruleMetric = ''memory'', ruleOperator = ''<'',
          ruleThreshold = ''20'', ruleSeverity = info, ruleWindow = Num 300\<rparr>,
        \<lparr>ruleName = ''low memory'', ruleMetric = ''memory'', ruleOperator = ''<'',
          ruleThreshold = ''20'', ruleSeverity = info, ruleWindow = NaN\<rparr>]
      = [''Alert critical when usb == removed for 1s or longer'',
         ''Alert critical when usb == removed for 1s or longer'',
         ''Alert info when memory < 20 for 300s or longer'',
         ''Alert info when memory < 20 for NaNs or longer'']"
proof -
  let ?F = "\<lambda>q::rat. ''?''"
  let ?u = "\<lparr>ruleName = ''USB removed'', ruleMetric = ''usb'', ruleOperator = ''=='',
        ruleThreshold = ''removed'', ruleSeverity = critical, ruleWindow = Num 1\<rparr>"
  let ?o = "\<lparr>ruleName = ''other'', ruleMetric = ''usb'', ruleOperator = ''=='',
        ruleThreshold = ''removed'', ruleSeverity = critical, ruleWindow = Num 1\<rparr>"
  let ?m = "\<lparr>ruleName = ''low memory'', ruleMetric = ''memory'', ruleOperator = ''<'',
        ruleThreshold = ''20'', ruleSeverity = info, ruleWindow = Num 300\<rparr>"
  let ?w = "\<lparr>ruleName = ''low memory'', ruleMetric = ''memory'', ruleOperator = ''<'',
        ruleThreshold = ''20'', ruleSeverity = warning, ruleWindow = Num 300\<rparr>"
  let ?n = "\<lparr>ruleName = ''low memory'', ruleMetric = ''memory'', ruleOperator = ''<'',
        ruleThreshold = ''20'', ruleSeverity = info, ruleWindow = NaN\<rparr>"
  let ?L = "[?u, ?o, ?m, ?n]"
  note t = previewText_deterministic [of ?u ?o ?F 300 ?L]
  note s = previewText_deterministic [of ?m ?w ?F 300 ?L]
  have n1: "number_to_string ?F (Num 1) = ''1''" and n300: "number_to_string ?F (Num 300) = ''300''"
    and d300: "dec 300 = ''300''"
    by code_simp+
  from t [THEN conjunct1] have e: "previewText ?F ?u = previewText ?F ?o"
    by simp
  from t [THEN conjunct2, THEN conjunct1] n1
  have p: "previewText ?F ?u = ''Alert critical when usb == removed for 1s or longer''"
    by simp
  from s [THEN conjunct2, THEN conjunct1] n300
  have q: "previewText ?F ?m = ''Alert info when memory < 20 for 300s or longer''"
    by simp
  from t [THEN conjunct2, THEN conjunct2, THEN conjunct1]
  have k: "number_to_string ?F (Num (of_nat 300)) = ''300''" and v: "decimal_value ''300'' = 300"
    by (simp_all add: d300)
  from s [THEN conjunct2, THEN conjunct2, THEN conjunct2, THEN conjunct1]
  have i: "previewText ?F ?m \<noteq> previewText ?F ?w"
    by auto
  from t [THEN conjunct2, THEN conjunct2, THEN conjunct2, THEN conjunct2]
  have r: "render_previews ?F None ?L = map (previewText ?F) ?L" .
  have c: "map (previewText ?F) ?L
      = [''Alert critical when usb == removed for 1s or longer'',
         ''Alert critical when usb == removed for 1s or longer'',
         ''Alert info when memory < 20 for 300s or longer'',
         ''Alert info when memory < 20 for NaNs or longer'']"
    by code_simp
  note r' = trans [OF r c]
  from e p q k v i r' show ?thesis by (intro conjI)
qed

text \<open>
  C6. After any sequence of user actions on the fresh form (template buttons, the inputs,
  the selects, successful submissions) the operator is one of the six values
  \<^verbatim>\<open>>= > <= < == !=\<close>, and so is the operator of every createGroupRule call that
  handleCreateRule makes from such a form.
\<close>

theorem form_operator_invariant:
  "ruleOperator (form_after acts) \<in> {''>='', ''>'', ''<='', ''<'', ''=='', ''!=''}
   \<and> (form st = form_after acts \<longrightarrow>
        (\<forall>g d. CreateGroupRule g d \<in> set (snd (handleCreateRule c l st))
           \<longrightarrow> operator d \<in> {''>='', ''>'', ''<='', ''<'', ''=='', ''!=''}))"
proof -
  have i: "ruleOperator INITIAL_FORM \<in> set OPERATOR_OPTIONS"
    by (simp add: INITIAL_FORM_def OPERATOR_OPTIONS_def)
  have s: "set OPERATOR_OPTIONS = {''>='', ''>'', ''<='', ''<'', ''=='', ''!=''}"
    by (simp add: OPERATOR_OPTIONS_def)
  have a: "ruleOperator (form_after acts) \<in> {''>='', ''>'', ''<='', ''<'', ''=='', ''!=''}"
    using foldl_form_step_operator [OF i, of acts] unfolding form_after_def s .
  have b: "operator d \<in> {''>='', ''>'', ''<='', ''<'', ''=='', ''!=''}"
    if "form st = form_after acts" "CreateGroupRule g d \<in> set (snd (handleCreateRule c l st))" for g d
  proof -
    from handleCreateRule_calls_cases [of c l st] that(2)
    have "operator d = ruleOperator (form st)" by auto
    with a that(1) show ?thesis by simp
  qed
  from a b show ?thesis by blast
qed

text \<open>
  The theorem after the network template and the fourth operator option, submitted for the
  group \<^verbatim>\<open>g1\<close>.
\<close>

theorem form_operator_invariant_witness:
  "form_after [PressTemplate 3, PickOperator 3]
     = \<lparr>ruleName = ''Network disconnected'', ruleMetric = ''network'', ruleOperator = ''<'',
        ruleThreshold = ''disconnected'', ruleSeverity = critical, ruleWindow = Num 1\<rparr>
   \<and> CreateGroupRule ''g1'' \<lparr>name = ''Network disconnected'', metric = ''network'', operator = ''<'',
          threshold = ''disconnected'', rule_severity = critical, window_seconds = Num 1\<rparr>
       \<in> set (snd (handleCreateRule (Resolved (''r1'', True)) (Resolved ([] :: unit list))
            \<lparr>selectedGroupId = ''g1'', saving = False, error = '''', notice = '''',
             form = form_after [PressTemplate 3, PickOperator 3], rules = []\<rparr>))
   \<and> operator \<lparr>name = ''Network disconnected'', metric = ''network'', operator = ''<'',
          threshold = ''disconnected'', rule_severity = critical, window_seconds = Num 1\<rparr>
       \<in> {''>='', ''>'', ''<='', ''<'', ''=='', ''!=''}"
proof -
  let ?acts = "[PressTemplate 3, PickOperator 3]"
  let ?st = "\<lparr>selectedGroupId = ''g1'', saving = False, error = '''', notice = '''',
             form = form_after ?acts, rules = ([] :: unit list)\<rparr>"
  let ?d = "\<lparr>name = ''Network disconnected'', metric = ''network'', operator = ''<'',
          threshold = ''disconnected'', rule_severity = critical, window_seconds = Num 1\<rparr>"
  have f: "form_after ?acts
     = \<lparr>ruleName = ''Network disconnected'', ruleMetric = ''network'', ruleOperator = ''<'',
        ruleThreshold = ''disconnected'', ruleSeverity = critical, ruleWindow = Num 1\<rparr>"
    by (simp add: form_after_def RULE_TEMPLATES_def OPERATOR_OPTIONS_def)
  have t: "trim ''Network disconnected'' = ''Network disconnected''" "trim ''disconnected'' = ''disconnected''"
    by (simp_all add: trim_def is_whitespace_def)
  have m: "CreateGroupRule ''g1'' ?d
       \<in> set (snd (handleCreateRule (Resolved (''r1'', True)) (Resolved []) ?st))"
    by (simp add: f t handleCreateRule_def)
  have sel: "form ?st = form_after ?acts" by simp
  from form_operator_invariant [of ?acts ?st "Resolved (''r1'', True)" "Resolved []"] sel m
  have "operator ?d \<in> {''>='', ''>'', ''<='', ''<'', ''=='', ''!=''}"
    by blast
  with f m show ?thesis by blast
qed

text \<open>
  C3. For every string and every behaviour of \<^verbatim>\<open>JSON.parse\<close>, parseHeadersJson returns a
  headers object exactly when the input is blank (then the empty object) or parses as an
  object all of whose values are strings; otherwise it throws (the \<open>Inl\<close>). For a webhook
  channel, every createGroupAlertChannel call of handleCreateChannel carries the headers
  that parseHeadersJson returned, and when parseHeadersJson throws the handler makes no
  call and sets an error: the thrown message, or the message of the group or target check
  that failed before the headers were parsed.
\<close>

theorem parseHeadersJson_gate:
  "((\<exists>m. parseHeadersJson P v = Inr m)
      = (trim v = '''' \<or> (\<exists>es. P v = Inr (JObject es) \<and> (\<forall>(k, x) \<in> set es. \<exists>s. x = JString s))))
   \<and> (trim v = '''' \<longrightarrow> parseHeadersJson P v = Inr [])
   \<and> (channelType st = webhook \<longrightarrow>
        (\<forall>g d. CreateGroupAlertChannel g d \<in> set (snd (handleCreateChannel P c l st))
           \<longrightarrow> (\<exists>h. parseHeadersJson P (webhookHeaders st) = Inr h \<and> webhook_headers d = Some h))
        \<and> (\<forall>e. parseHeadersJson P (webhookHeaders st) = Inl e
           \<longrightarrow> snd (handleCreateChannel P c l st) = []
               \<and> error (fst (handleCreateChannel P c l st))
                   \<in> {''Please select a group first.'', ''Please enter email or webhook URL.'', e}))"
  using parseHeadersJson_ok [of P v] handleCreateChannel_called [of st _ _ P c l]
    handleCreateChannel_parse_failed [of st P _ c l]
  by (simp add: parseHeadersJson_def)

text \<open>
  The theorem with a parser that knows one object and rejects everything else, at a webhook
  form whose headers do not parse: no call, and the message of the SyntaxError.
\<close>

theorem parseHeadersJson_gate_witness:
  "parseHeadersJson
      (\<lambda>s. if s = ''{\"X-Key\":\"k1\"}'' then Inr (JObject [(''X-Key'', JString ''k1'')])
            else Inl ''Unexpected token'') ''{\"X-Key\":\"k1\"}''
     = Inr [(''X-Key'', ''k1'')]
   \<and> parseHeadersJson
      (\<lambda>s. if s = ''{\"X-Key\":\"k1\"}'' then Inr (JObject [(''X-Key'', JString ''k1'')])
            else Inl ''Unexpected token'') ''{oops'' = Inl ''Unexpected token''
   \<and> snd (handleCreateChannel
      (\<lambda>s. if s = ''{\"X-Key\":\"k1\"}'' then Inr (JObject [(''X-Key'', JString ''k1'')])
            else Inl ''Unexpected token'') (Resolved (''c1'', True)) (Resolved [])
        \<lparr>selectedGroupId = ''g1'', saving = False, error = '''', notice = '''', groups = [],
         channels = [], alertHistory = [], channelType = webhook, target = ''https://example.com/hook'',
         webhookMethod = POST, webhookHeaders = ''{oops'', webhookBody = '''',
         editingId = '''', editTarget = '''', editMethod = POST, editHeaders = '''', editBody = ''''\<rparr>) = []
   \<and> error (fst (handleCreateChannel
      (\<lambda>s. if s = ''{\"X-Key\":\"k1\"}'' then Inr (JObject [(''X-Key'', JString ''k1'')])
            else Inl ''Unexpected token'') (Resolved (''c1'', True)) (Resolved [])
        \<lparr>selectedGroupId = ''g1'', saving = False, error = '''', notice = '''', groups = [],
         channels = [], alertHistory = [], channelType = webhook, target = ''https://example.com/hook'',
         webhookMethod = POST, webhookHeaders = ''{oops'', webhookBody = '''',
         editingId = '''', editTarget = '''', editMethod = POST, editHeaders = '''', editBody = ''''\<rparr>))
     = ''Unexpected token''"
proof -
  let ?P = "\<lambda>s. if s = ''{\"X-Key\":\"k1\"}'' then Inr (JObject [(''X-Key'', JString ''k1'')])
            else Inl ''Unexpected token''"
  let ?st = "\<lparr>selectedGroupId = ''g1'', saving = False, error = '''', notice = '''', groups = [],
         channels = [], alertHistory = [], channelType = webhook, target = ''https://example.com/hook'',
         webhookMethod = POST, webhookHeaders = ''{oops'', webhookBody = '''',
         editingId = '''', editTarget = '''', editMethod = POST, editHeaders = '''', editBody = ''''\<rparr>"
  have a: "parseHeadersJson ?P ''{\"X-Key\":\"k1\"}'' = Inr [(''X-Key'', ''k1'')]"
    by (simp add: parseHeadersJson_def trim_def is_whitespace_def assign_prop_def)
  have b: "parseHeadersJson ?P ''{oops'' = Inl ''Unexpected token''"
    by (simp add: parseHeadersJson_def trim_def is_whitespace_def)
  have w: "channelType ?st = webhook" and h: "parseHeadersJson ?P (webhookHeaders ?st) = Inl ''Unexpected token''"
    using b by simp_all
  from parseHeadersJson_gate [of ?P "''{oops''" ?st "Resolved (''c1'', True)" "Resolved []"] w h
  have c: "snd (handleCreateChannel ?P (Resolved (''c1'', True)) (Resolved []) ?st) = []"
    by blast
  have d: "error (fst (handleCreateChannel ?P (Resolved (''c1'', True)) (Resolved []) ?st))
     = ''Unexpected token''"
    by (simp add: handleCreateChannel_def trim_def is_whitespace_def b)
  from a b c d show ?thesis by blast
qed

text \<open>
  C7, as the source has it. For a selected group the effect calls listGroupAlerts with the
  limit 50 and stores the alerts of the response; the page then shows them in order (or the
  text for an empty history), each with its title, message, agent, severity and creation
  time. These five texts are all that is shown for an occurrence: no delivery status is
  read, stored or displayed.
\<close>

theorem alerts_view_shows_history:
  assumes "selectedGroupId st \<noteq> ''''"
  shows "alertHistoryEffect (Resolved (alerts, count)) st
           = (st\<lparr>alertHistory := alerts\<rparr>, [ListGroupAlerts (selectedGroupId st) (Some (Num 50)) None])
         \<and> (selectedGroup st \<noteq> None \<longrightarrow>
              recent_alerts fmt_time (fst (alertHistoryEffect (Resolved (alerts, count)) st))
                = (if alerts = [] then [[''No alerts for this group yet.'']]
                   else map (alert_texts fmt_time) alerts))
         \<and> (\<forall>a \<in> set alerts.
              alert_texts fmt_time a =
                [or_else (alert_rule_name a) (alert_metric a),
                 or_else (Some (alert_message a)) (alert_anomaly_type a),
                 ''Agent: '' @ or_else (alert_agent_display_name a)
                      (or_else (alert_agent_thing_name a) (alert_agent_id a)),
                 severity_str (alert_severity a),
                 fmt_time (js_mul_by 1000 (alert_created_at a))])"
  using assms
  by (simp add: alertHistoryEffect_def fetchAlertHistory_def recent_alerts_def selectedGroup_def
      alert_texts_def)

text \<open>
  The theorem for the group \<^verbatim>\<open>g1\<close> and a response with one occurrence.
\<close>

theorem alerts_view_shows_history_witness:
  "snd (alertHistoryEffect
     (Resolved ([\<lparr>alert_id = ''a1'', alert_group_id = ''g1'', alert_agent_id = ''agent-1'',
         alert_rule_id = ''r1'', alert_severity = warning, alert_metric = ''cpu'',
         alert_message = ''cpu >= 90 for 30s'', alert_anomaly_type = ''threshold'',
         alert_created_at = Num 1700000000, alert_agent_display_name = Some ''pos-01'',
         alert_agent_thing_name = None, alert_rule_name = Some ''CPU spike''\<rparr>], Num 1))
     \<lparr>selectedGroupId = ''g1'', saving = False, error = '''', notice = '''',
      groups = [\<lparr>group_id = ''g1'', group_name = ''Store 1''\<rparr>],
      channels = [], alertHistory = [], channelType = email, target = '''',
      webhookMethod = POST, webhookHeaders = '''', webhookBody = '''',
      editingId = '''', editTarget = '''', editMethod = POST, editHeaders = '''', editBody = ''''\<rparr>)
     = [ListGroupAlerts ''g1'' (Some (Num 50)) None]
   \<and> recent_alerts (\<lambda>n. ''11/14/2023, 10:13:20 PM'') (fst (alertHistoryEffect
     (Resolved ([\<lparr>alert_id = ''a1'', alert_group_id = ''g1'', alert_agent_id = ''agent-1'',
         alert_rule_id = ''r1'', alert_severity = warning, alert_metric = ''cpu'',
         alert_message = ''cpu >= 90 for 30s'', alert_anomaly_type = ''threshold'',
         alert_created_at = Num 1700000000, alert_agent_display_name = Some ''pos-01'',
         alert_agent_thing_name = None, alert_rule_name = Some ''CPU spike''\<rparr>], Num 1))
     \<lparr>selectedGroupId = ''g1'', saving = False, error = '''', notice = '''',
      groups = [\<lparr>group_id = ''g1'', group_name = ''Store 1''\<rparr>],
      channels = [], alertHistory = [], channelType = email, target = '''',
      webhookMethod = POST, webhookHeaders = '''', webhookBody = '''',
      editingId = '''', editTarget = '''', editMethod = POST, editHeaders = '''', editBody = ''''\<rparr>))
     = [[''CPU spike'', ''cpu >= 90 for 30s'', ''Agent: pos-01'', ''warning'',
         ''11/14/2023, 10:13:20 PM'']]"
proof -
  let ?a = "\<lparr>alert_id = ''a1'', alert_group_id = ''g1'', alert_agent_id = ''agent-1'',
         alert_rule_id = ''r1'', alert_severity = warning, alert_metric = ''cpu'',
         alert_message = ''cpu >= 90 for 30s'', alert_anomaly_type = ''threshold'',
         alert_created_at = Num 1700000000, alert_agent_display_name = Some ''pos-01'',
         alert_agent_thing_name = None, alert_rule_name = Some ''CPU spike''\<rparr>"
  let ?st = "\<lparr>selectedGroupId = ''g1'', saving = False, error = '''', notice = '''',
      groups = [\<lparr>group_id = ''g1'', group_name = ''Store 1''\<rparr>],
      channels = [], alertHistory = [], channelType = email, target = '''',
      webhookMethod = POST, webhookHeaders = '''', webhookBody = '''',
      editingId = '''', editTarget = '''', editMethod = POST, editHeaders = '''', editBody = ''''\<rparr>"
  have g: "selectedGroupId ?st \<noteq> ''''" by simp
  have s: "selectedGroup ?st \<noteq> None" by (simp add: selectedGroup_def)
  note t = alerts_view_shows_history [OF g, of "[?a]" "Num 1" "\<lambda>n. ''11/14/2023, 10:13:20 PM''"]
  from t [THEN conjunct1] have c: "snd (alertHistoryEffect (Resolved ([?a], Num 1)) ?st)
      = [ListGroupAlerts ''g1'' (Some (Num 50)) None]"
    by simp
  from t [THEN conjunct2, THEN conjunct1] s have "recent_alerts (\<lambda>n. ''11/14/2023, 10:13:20 PM'')
        (fst (alertHistoryEffect (Resolved ([?a], Num 1)) ?st))
      = map (alert_texts (\<lambda>n. ''11/14/2023, 10:13:20 PM'')) [?a]"
    by simp
  then have r: "recent_alerts (\<lambda>n. ''11/14/2023, 10:13:20 PM'')
        (fst (alertHistoryEffect (Resolved ([?a], Num 1)) ?st))
      = [[''CPU spike'', ''cpu >= 90 for 30s'', ''Agent: pos-01'', ''warning'',
         ''11/14/2023, 10:13:20 PM'']]"
    by (simp add: alert_texts_def or_else_def)
  from c r show ?thesis by blast
qed

text \<open>
  C7 as it is stated fails on its second half. With the group \<^verbatim>\<open>g1\<close> selected, one
  webhook channel and one occurrence in the history, everything the page shows for the
  occurrence and for the channel is listed below, whatever became of the delivery of that
  occurrence to that channel: the page state and the response types hold no delivery
  outcome, and no text is \<^verbatim>\<open>failed\<close>.
\<close>

theorem alerts_view_failed_status_counterexample:
  "recent_alerts (\<lambda>n. ''11/14/2023, 10:13:20 PM'')
     \<lparr>selectedGroupId = ''g1'', saving = False, error = '''', notice = '''',
      groups = [\<lparr>group_id = ''g1'', group_name = ''Store 1''\<rparr>],
      channels = [\<lparr>channel_id = ''c1'', channel_kind = webhook,
         channel_target = ''https://example.com/hook'', channel_webhook_method = Some POST,
         channel_webhook_headers = None, channel_webhook_body = None, channel_enabled = Num 1\<rparr>],
      alertHistory = [\<lparr>alert_id = ''a1'', alert_group_id = ''g1'', alert_agent_id = ''agent-1'',
         alert_rule_id = ''r1'', alert_severity = warning, alert_metric = ''cpu'',
         alert_message = ''cpu >= 90 for 30s'', alert_anomaly_type = ''threshold'',
         alert_created_at = Num 1700000000, alert_agent_display_name = Some ''pos-01'',
         alert_agent_thing_name = None, alert_rule_name = Some ''CPU spike''\<rparr>],
      channelType = email, target = '''', webhookMethod = POST, webhookHeaders = '''',
      webhookBody = '''', editingId = '''', editTarget = '''', editMethod = POST,
      editHeaders = '''', editBody = ''''\<rparr>
     = [[''CPU spike'', ''cpu >= 90 for 30s'', ''Agent: pos-01'', ''warning'',
         ''11/14/2023, 10:13:20 PM'']]
   \<and> alert_channels
     \<lparr>selectedGroupId = ''g1'', saving = False, error = '''', notice = '''',
      groups = [\<lparr>group_id = ''g1'', group_name = ''Store 1''\<rparr>],
      channels = [\<lparr>channel_id = ''c1'', channel_kind = webhook,
         channel_target = ''https://example.com/hook'', channel_webhook_method = Some POST,
         channel_webhook_headers = None, channel_webhook_body = None, channel_enabled = Num 1\<rparr>],
      alertHistory = [\<lparr>alert_id = ''a1'', alert_group_id = ''g1'', alert_agent_id = ''agent-1'',
         alert_rule_id = ''r1'', alert_severity = warning, alert_metric = ''cpu'',
         alert_message = ''cpu >= 90 for 30s'', alert_anomaly_type = ''threshold'',
         alert_created_at = Num 1700000000, alert_agent_display_name = Some ''pos-01'',
         alert_agent_thing_name = None, alert_rule_name = Some ''CPU spike''\<rparr>],
      channelType = email, target = '''', webhookMethod = POST, webhookHeaders = '''',
      webhookBody = '''', editingId = '''', editTarget = '''', editMethod = POST,
      editHeaders = '''', editBody = ''''\<rparr>
     = [[''Webhook'', ''https://example.com/hook'', ''POST'', ''Status: Enabled'', ''Disable'',
         ''Configure'', ''Delete'']]
   \<and> ''failed'' \<notin> set [''CPU spike'', ''cpu >= 90 for 30s'', ''Agent: pos-01'', ''warning'',
         ''11/14/2023, 10:13:20 PM'', ''Webhook'', ''https://example.com/hook'', ''POST'',
         ''Status: Enabled'', ''Disable'', ''Configure'', ''Delete'']"
  by (simp add: recent_alerts_def alert_channels_def selectedGroup_def alert_texts_def
      channel_texts_def or_else_def method_str_def)





text \<open>
  C8, as the source has it. When the response that apiFetch ends on is not ok, apiFetch
  returns nothing: it throws. Without a refresh (the status is not 401, or no token was
  sent) it throws what \<open>api_failure\<close> builds with the fallback \<^verbatim>\<open>HTTP {status}\<close>; when a
  401 came with a token and the refresh failed it throws ApiError 401 \<^verbatim>\<open>Session expired\<close>;
  when the refresh succeeded and the retry is not ok it throws what \<open>api_failure\<close> builds
  for the retry response with the fallback \<^verbatim>\<open>Request failed\<close>. For a body that is a JSON
  object, or is not JSON (then the data is the empty object), \<open>api_failure\<close> is an ApiError
  with the status of the response and the data, whose message is the \<^verbatim>\<open>error\<close> field when
  that is a non-empty string, and the fallback when the field is absent or falsy.
\<close>

theorem apiFetch_failure:
  "(first_response e path opts w = Response res \<and> \<not> res_ok res
      \<and> \<not> (res_status res = 401 \<and> truthy (token_of e w))
     \<longrightarrow> fst (apiFetch e path opts w)
          = Threw (api_failure e res (''HTTP '' @ dec (res_status res))))
   \<and> (first_response e path opts w = Response res \<and> res_status res = 401
      \<and> truthy (token_of e w) \<and> \<not> refreshed e path opts w
     \<longrightarrow> fst (apiFetch e path opts w) = Threw (ApiError 401 ''Session expired'' JUndefined))
   \<and> (first_response e path opts w = Response res \<and> res_status res = 401
      \<and> truthy (token_of e w) \<and> refreshed e path opts w
      \<and> retry_response e path opts w = Response retryRes \<and> \<not> res_ok retryRes
     \<longrightarrow> fst (apiFetch e path opts w) = Threw (api_failure e retryRes ''Request failed''))
   \<and> (res_json r = Some (JObject ps) \<and> map_of ps ''error'' = Some (JString s) \<and> s \<noteq> ''''
     \<longrightarrow> api_failure e r fallback = ApiError (res_status r) s (JObject ps))
   \<and> (res_json r = Some (JObject ps)
      \<and> (map_of ps ''error'' = None \<or> (\<exists>v. map_of ps ''error'' = Some v \<and> \<not> truthy v))
     \<longrightarrow> api_failure e r fallback = ApiError (res_status r) fallback (JObject ps))
   \<and> (res_json r = None
     \<longrightarrow> api_failure e r fallback = ApiError (res_status r) fallback (JObject []))"
  using api_failure_cases(1) [of r ps s e fallback] api_failure_cases(2) [of r ps e fallback]
    api_failure_cases(3) [of r e fallback]
  by (simp add: apiFetch_unfold)

text \<open>
  The theorem at a 404 whose body is \<^verbatim>\<open>{"error": "agent not found"}\<close>.
\<close>

theorem apiFetch_failure_witness:
  "first_response (browser (always \<lparr>res_status = 404, res_json = Some (JObject [(''error'', JString ''agent not found'')])\<rparr>))
      ''/agents/a1'' no_options signed_in
     = Response \<lparr>res_status = 404, res_json = Some (JObject [(''error'', JString ''agent not found'')])\<rparr>
   \<and> fst (apiFetch (browser (always \<lparr>res_status = 404, res_json = Some (JObject [(''error'', JString ''agent not found'')])\<rparr>))
      ''/agents/a1'' no_options signed_in)
     = Threw (ApiError 404 ''agent not found'' (JObject [(''error'', JString ''agent not found'')]))"
proof -
  let ?r = "\<lparr>res_status = 404, res_json = Some (JObject [(''error'', JString ''agent not found'')])\<rparr>"
  let ?e = "browser (always ?r)"
  have a: "first_response ?e ''/agents/a1'' no_options signed_in = Response ?r"
    by (simp add: first_response_def browser_def always_def)
  have b: "\<not> res_ok ?r" "\<not> (res_status ?r = 401 \<and> truthy (token_of ?e signed_in))"
    by (simp_all add: res_ok_def)
  have c: "res_json ?r = Some (JObject [(''error'', JString ''agent not found'')])"
    "map_of [(''error'', JString ''agent not found'')] ''error'' = Some (JString ''agent not found'')"
    "''agent not found'' \<noteq> ''''"
    by simp_all
  note t = apiFetch_failure [of ?e "''/agents/a1''" no_options signed_in ?r _ ?r
      "[(''error'', JString ''agent not found'')]" "''agent not found''" "''HTTP '' @ dec 404"]
  from t a b have "fst (apiFetch ?e ''/agents/a1'' no_options signed_in)
      = Threw (api_failure ?e ?r (''HTTP '' @ dec (res_status ?r)))"
    by blast
  moreover from t c have "api_failure ?e ?r (''HTTP '' @ dec 404)
      = ApiError (res_status ?r) ''agent not found'' (JObject [(''error'', JString ''agent not found'')])"
    by blast
  ultimately show ?thesis using a by simp
qed

text \<open>
  C8 as it is stated fails in three places. After a 401, a successful refresh and a retry
  answered by 500 with the body \<^verbatim>\<open>{}\<close>, the message is \<^verbatim>\<open>Request failed\<close>, not
  \<^verbatim>\<open>HTTP 500\<close>. A 500 whose body is the JSON \<^verbatim>\<open>null\<close> makes apiFetch throw a TypeError,
  not an ApiError. A 500 whose body is \<^verbatim>\<open>{"error": 5}\<close> gives the message \<^verbatim>\<open>5\<close>: the
  field is used whenever it is truthy, string or not.
\<close>

theorem apiFetch_failure_counterexample:
  "fst (apiFetch (browser (expiring \<lparr>res_status = 500, res_json = Some (JObject [])\<rparr>))
         ''/agents'' no_options signed_in)
     = Threw (ApiError 500 ''Request failed'' (JObject []))
   \<and> fst (apiFetch (browser (always \<lparr>res_status = 500, res_json = Some JNull\<rparr>))
         ''/agents'' no_options signed_in)
     = Threw TypeError
   \<and> fst (apiFetch (browser (always \<lparr>res_status = 500,
             res_json = Some (JObject [(''error'', JNumber (Num 5))])\<rparr>))
         ''/agents'' no_options signed_in)
     = Threw (ApiError 500 ''5'' (JObject [(''error'', JNumber (Num 5))]))"
  by code_simp




end
